theory Spec2Isabelle
  imports Main
begin

section \<open>Python values\<close>

text \<open>
  The program is one Python script, \<^verbatim>\<open>entrypoint.py\<close>. A Python \<^verbatim>\<open>str\<close> is modelled as a
  \<^typ>\<open>string\<close> of code points below 256, an \<^verbatim>\<open>Optional[str]\<close> as a \<^typ>\<open>string option\<close>.
  A call into a library that may raise returns a value of type \<open>'a py\<close>; every such call
  of the script sits in a \<^verbatim>\<open>try\<close> block whose handler treats all exceptions alike
  (\<^verbatim>\<open>pytz.timezone\<close> raises only \<^verbatim>\<open>UnknownTimeZoneError\<close> on a \<^verbatim>\<open>str\<close>, the one its handler
  names), so the model does not record which exception it was.
\<close>

datatype 'a py = Raises | Returns 'a

definition truthy :: "string option \<Rightarrow> bool" where
  \<comment> \<open>\<^verbatim>\<open>if s:\<close> for a value that is \<^verbatim>\<open>None\<close> or a \<^verbatim>\<open>str\<close>\<close>
  "truthy v = (case v of None \<Rightarrow> False | Some s \<Rightarrow> s \<noteq> [])"

definition lower_char :: "char \<Rightarrow> char" where
  "lower_char c =
     (let n = of_char c :: nat in
      if (65 \<le> n \<and> n \<le> 90) \<or> (192 \<le> n \<and> n \<le> 222 \<and> n \<noteq> 215)
      then char_of (n + 32) else c)"

definition lower :: "string \<Rightarrow> string" where
  \<comment> \<open>\<^verbatim>\<open>str.lower()\<close> on code points below 256\<close>
  "lower s = map lower_char s"

definition upper_char :: "char \<Rightarrow> string option" where
  \<comment> \<open>the capitals of the code points 181 and 255 are no code points below 256\<close>
  "upper_char c =
     (let n = of_char c :: nat in
      if (97 \<le> n \<and> n \<le> 122) \<or> (224 \<le> n \<and> n \<le> 254 \<and> n \<noteq> 247)
      then Some [char_of (n - 32)]
      else if n = 223 then Some ''SS''
      else if n = 181 \<or> n = 255 then None
      else Some [c])"

fun upper :: "string \<Rightarrow> string option" where
  \<comment> \<open>\<^verbatim>\<open>str.upper()\<close> on code points below 256; \<open>None\<close> when the result has a code point
      beyond them\<close>
  "upper [] = Some []"
| "upper (c # cs) =
     (case upper_char c of
        None \<Rightarrow> None
      | Some u \<Rightarrow> (case upper cs of None \<Rightarrow> None | Some us \<Rightarrow> Some (u @ us)))"

definition apostrophe :: string where
  "apostrophe = [CHR 0x27]"

subsection \<open>Dates and times\<close>

text \<open>
  A naive \<^verbatim>\<open>datetime\<close> is the number of microseconds since 0001-01-01T00:00:00 on its own
  wall clock. An aware \<^verbatim>\<open>datetime\<close> carries its instant on the UTC time line in the same
  unit and its UTC offset; Python compares two aware values by their instants.
  \<^verbatim>\<open>datetime.max\<close> is 9999-12-31T23:59:59.999999, day number 3652059, and a
  \<^verbatim>\<open>timedelta\<close> holds at most 999999999 days in either direction: outside these ranges the
  arithmetic raises \<^verbatim>\<open>OverflowError\<close>.
\<close>

record aware =
  utc :: int
  utcoffset :: int

datatype datetime = Naive int | Aware aware

definition datetime_max :: int where
  "datetime_max = 3652059 * 86400000000 - 1"

definition timedelta_min :: int where
  "timedelta_min = - (999999999 * 86400000000)"

definition timedelta_max :: int where
  "timedelta_max = 999999999 * 86400000000 + 86399999999"

definition timedelta_minutes :: "int \<Rightarrow> int py" where
  \<comment> \<open>\<^verbatim>\<open>datetime.timedelta(minutes=m)\<close>, in microseconds\<close>
  "timedelta_minutes m =
     (let us = m * 60000000 in
      if timedelta_min \<le> us \<and> us \<le> timedelta_max then Returns us else Raises)"

definition datetime_add :: "int \<Rightarrow> int \<Rightarrow> int py" where
  \<comment> \<open>naive \<^verbatim>\<open>datetime + timedelta\<close>\<close>
  "datetime_add d td =
     (let r = d + td in if 0 \<le> r \<and> r \<le> datetime_max then Returns r else Raises)"

definition replace_tzinfo_None :: "aware \<Rightarrow> int" where
  \<comment> \<open>\<^verbatim>\<open>dt.replace(tzinfo=None)\<close>: the wall clock reading of an aware value\<close>
  "replace_tzinfo_None a = utc a + utcoffset a"

subsection \<open>The libraries\<close>

text \<open>
  \<^verbatim>\<open>pytz\<close>, \<^verbatim>\<open>dateutil\<close> and the builtin \<^verbatim>\<open>int\<close> are not code of the repository: they are
  parameters of the model. A \<^verbatim>\<open>pytz\<close> zone is the pair of its two methods the script
  uses; a \<^verbatim>\<open>dateutil\<close> rule is its method \<^verbatim>\<open>before(dt, inc=True)\<close>, which returns the last
  occurrence at or before \<^verbatim>\<open>dt\<close>, or \<^verbatim>\<open>None\<close>, or raises.
\<close>

record tzinfo =
  localize :: "int \<Rightarrow> aware py"
  utcoffset_at :: "int \<Rightarrow> int"

type_synonym rule = "int \<Rightarrow> int option py"

record lib =
  pytz_timezone :: "string \<Rightarrow> tzinfo py"
  parser_parse :: "string \<Rightarrow> datetime py"
  rrulestr :: "string \<Rightarrow> int \<Rightarrow> rule py"
  py_int :: "string \<Rightarrow> int py"
  isoformat :: "aware \<Rightarrow> string"
  strftime :: "aware \<Rightarrow> string \<Rightarrow> string"
  str_datetime :: "aware \<Rightarrow> string"

definition astimezone :: "tzinfo \<Rightarrow> int \<Rightarrow> aware" where
  \<comment> \<open>\<^verbatim>\<open>now_utc.astimezone(timezone)\<close>: the same instant, with the zone's offset there\<close>
  "astimezone tz t = \<lparr>utc = t, utcoffset = utcoffset_at tz t\<rparr>"

subsection \<open>The event payload\<close>

text \<open>
  What \<^verbatim>\<open>json.load\<close> returns. A \<^verbatim>\<open>dict\<close> is an association list with distinct keys, in
  insertion order; a \<^verbatim>\<open>float\<close> is kept as its literal.
\<close>

datatype json =
    JNone
  | JBool bool
  | JInt int
  | JFloat string
  | JStr string
  | JList "json list"
  | JDict "(string \<times> json) list"

fun dict_get :: "json \<Rightarrow> string \<Rightarrow> json \<Rightarrow> json py" where
  \<comment> \<open>\<^verbatim>\<open>x.get(key, default)\<close>: only a \<^verbatim>\<open>dict\<close> has the method\<close>
  "dict_get (JDict kvs) k d = Returns (case map_of kvs k of None \<Rightarrow> d | Some v \<Rightarrow> v)"
| "dict_get _ k d = Raises"

fun iterate :: "json \<Rightarrow> json list py" where
  \<comment> \<open>\<^verbatim>\<open>for l in x\<close>: a list gives its elements, a dict its keys, a str its characters\<close>
  "iterate (JList xs) = Returns xs"
| "iterate (JDict kvs) = Returns (map (\<lambda>kv. JStr (fst kv)) kvs)"
| "iterate (JStr s) = Returns (map (\<lambda>c. JStr [c]) s)"
| "iterate _ = Raises"

fun getitem :: "json \<Rightarrow> string \<Rightarrow> json py" where
  \<comment> \<open>\<^verbatim>\<open>l['name']\<close>: a string subscript works on a \<^verbatim>\<open>dict\<close> that has the key\<close>
  "getitem (JDict kvs) k = (case map_of kvs k of None \<Rightarrow> Raises | Some v \<Rightarrow> Returns v)"
| "getitem _ k = Raises"

fun names_of :: "json list \<Rightarrow> json list py" where
  \<comment> \<open>the comprehension \<^verbatim>\<open>[l['name'] for l in ...]\<close>\<close>
  "names_of [] = Returns []"
| "names_of (l # ls) =
     (case getitem l ''name'' of
        Raises \<Rightarrow> Raises
      | Returns n \<Rightarrow> (case names_of ls of Raises \<Rightarrow> Raises | Returns ns \<Rightarrow> Returns (n # ns)))"

definition pr_labels :: "json \<Rightarrow> json list py" where
  "pr_labels payload =
     (case dict_get payload ''pull_request'' (JDict []) of
        Raises \<Rightarrow> Raises
      | Returns pr \<Rightarrow>
          (case dict_get pr ''labels'' (JList []) of
             Raises \<Rightarrow> Raises
           | Returns labels \<Rightarrow>
               (case iterate labels of Raises \<Rightarrow> Raises | Returns ls \<Rightarrow> names_of ls)))"

section \<open>The process\<close>

text \<open>
  What one run reads from outside: the environment variables, the clock, the event file
  (\<^verbatim>\<open>os.path.exists\<close>, and \<^verbatim>\<open>open\<close> followed by \<^verbatim>\<open>json.load\<close>), and whether a file can be
  opened for appending.
\<close>

record world =
  environ :: "string \<Rightarrow> string option"
  now :: int
  path_exists :: "string \<Rightarrow> bool"
  load_json :: "string \<Rightarrow> json py"
  can_append :: "string \<Rightarrow> bool"

datatype error =
    EnvironmentRequired
  | UnknownTimezone string
  | BothWindows
  | FixedWindowDates
  | DurationRequired
  | ProcessRrule

datatype ending = SysExit int | Uncaught

definition exit_status :: "ending \<Rightarrow> int" where
  \<comment> \<open>the interpreter ends with status 1 on an exception nobody caught\<close>
  "exit_status t = (case t of SysExit n \<Rightarrow> n | Uncaught \<Rightarrow> 1)"

record summary_args =
  s_environ :: string
  s_now_local :: string
  s_now_utc :: string
  s_is_frozen :: bool
  s_decision :: string
  s_window_details :: string
  s_override_details :: string

text \<open>
  What one run leaves behind: how it ended, the \<^verbatim>\<open>::error::\<close> it printed before
  \<^verbatim>\<open>sys.exit(1)\<close> on a fatal input error, the lines appended to \<^verbatim>\<open>GITHUB_OUTPUT\<close> in
  order, and the arguments of the block appended to \<^verbatim>\<open>GITHUB_STEP_SUMMARY\<close> (its
  markdown layout is not modelled). Other lines printed to standard output are not
  modelled.
\<close>

record run =
  status :: ending
  fatal :: "error option"
  outputs :: "(string \<times> string) list"
  summary :: "summary_args option"

definition get_input :: "world \<Rightarrow> string \<Rightarrow> string option \<Rightarrow> string option" where
  \<comment> \<open>a name whose capitals leave the code points below 256 names no variable of
      \<open>environ\<close>, whose keys are such strings: the lookup gives the default\<close>
  "get_input w name dflt =
     (case upper name of
        None \<Rightarrow> dflt
      | Some NAME \<Rightarrow>
          (case environ w (''INPUT_'' @ NAME) of None \<Rightarrow> dflt | Some v \<Rightarrow> Some v))"

definition get_input_str :: "world \<Rightarrow> string \<Rightarrow> string \<Rightarrow> string" where
  \<comment> \<open>\<^verbatim>\<open>get_input\<close> with a \<^verbatim>\<open>str\<close> default: the result is a \<^verbatim>\<open>str\<close>\<close>
  "get_input_str w name dflt =
     (case get_input w name (Some dflt) of None \<Rightarrow> dflt | Some v \<Rightarrow> v)"

definition abort :: "error \<Rightarrow> run" where
  \<comment> \<open>\<^verbatim>\<open>print("::error::..."); sys.exit(1)\<close> before anything was written\<close>
  "abort e = \<lparr>status = SysExit 1, fatal = Some e, outputs = [], summary = None\<rparr>"

definition parse_timezone :: "lib \<Rightarrow> string \<Rightarrow> error + tzinfo" where
  "parse_timezone L tz_str =
     (case pytz_timezone L tz_str of
        Raises \<Rightarrow> Inl (UnknownTimezone tz_str)
      | Returns tz \<Rightarrow> Inr tz)"

subsection \<open>2. Freeze logic\<close>

record evaluation =
  is_frozen :: bool
  window_type :: string
  window_name :: string
  active_start :: "aware option"
  active_end :: "aware option"
  reason :: string

definition no_window :: evaluation where
  "no_window =
     \<lparr>is_frozen = False, window_type = ''NONE'', window_name = [],
      active_start = None, active_end = None, reason = ''No active freeze window''\<rparr>"

definition localize_if_naive :: "tzinfo \<Rightarrow> datetime \<Rightarrow> aware py" where
  \<comment> \<open>\<^verbatim>\<open>if dt.tzinfo is None: dt = timezone.localize(dt)\<close>\<close>
  "localize_if_naive tz d = (case d of Naive n \<Rightarrow> localize tz n | Aware a \<Rightarrow> Returns a)"

definition fixed_window :: "lib \<Rightarrow> tzinfo \<Rightarrow> aware \<Rightarrow> string \<Rightarrow> string \<Rightarrow> evaluation py" where
  \<comment> \<open>the body of the \<^verbatim>\<open>try\<close> of branch A\<close>
  "fixed_window L tz now_local freeze_start_str freeze_end_str =
     (case parser_parse L freeze_start_str of
        Raises \<Rightarrow> Raises
      | Returns parsed_start \<Rightarrow>
     (case parser_parse L freeze_end_str of
        Raises \<Rightarrow> Raises
      | Returns parsed_end \<Rightarrow>
     (case localize_if_naive tz parsed_start of
        Raises \<Rightarrow> Raises
      | Returns dt_start \<Rightarrow>
     (case localize_if_naive tz parsed_end of
        Raises \<Rightarrow> Raises
      | Returns dt_end \<Rightarrow>
          Returns
            (if utc dt_start \<le> utc now_local \<and> utc now_local \<le> utc dt_end
             then \<lparr>is_frozen = True, window_type = ''FIXED'',
                   window_name = ''Fixed Freeze Window'',
                   active_start = Some dt_start, active_end = Some dt_end,
                   reason = ''Current time is within fixed freeze window''\<rparr>
             else no_window)))))"

definition recurring_window :: "lib \<Rightarrow> tzinfo \<Rightarrow> aware \<Rightarrow> string \<Rightarrow> string \<Rightarrow> evaluation py" where
  \<comment> \<open>the body of the \<^verbatim>\<open>try\<close> of branch B\<close>
  "recurring_window L tz now_local rrule_str duration_mins =
     (case py_int L duration_mins of
        Raises \<Rightarrow> Raises
      | Returns duration \<Rightarrow>
     (case rrulestr L rrule_str (replace_tzinfo_None now_local) of
        Raises \<Rightarrow> Raises
      | Returns rule \<Rightarrow>
     (let now_naive = replace_tzinfo_None now_local in
      case rule now_naive of
        Raises \<Rightarrow> Raises
      | Returns None \<Rightarrow> Returns no_window
      | Returns (Some last_start) \<Rightarrow>
     (case timedelta_minutes duration of
        Raises \<Rightarrow> Raises
      | Returns delta \<Rightarrow>
     (case datetime_add last_start delta of
        Raises \<Rightarrow> Raises
      | Returns window_end \<Rightarrow>
          if now_naive < window_end
          then (case localize tz last_start of
                  Raises \<Rightarrow> Raises
                | Returns a_start \<Rightarrow>
               (case localize tz window_end of
                  Raises \<Rightarrow> Raises
                | Returns a_end \<Rightarrow>
                    Returns
                      \<lparr>is_frozen = True, window_type = ''RRULE'',
                       window_name = ''Recurring Freeze Window'',
                       active_start = Some a_start, active_end = Some a_end,
                       reason = ''Current time is within recurring freeze window''\<rparr>))
          else Returns no_window)))))"

definition freeze_logic :: "lib \<Rightarrow> world \<Rightarrow> tzinfo \<Rightarrow> aware \<Rightarrow> error + evaluation" where
  "freeze_logic L w tz now_local =
     (let freeze_start_str = get_input w ''freeze_start'' None;
          freeze_end_str = get_input w ''freeze_end'' None;
          rrule_str = get_input w ''rrule'' None;
          duration_mins = get_input w ''duration_minutes'' None
      in
      if (truthy freeze_start_str \<or> truthy freeze_end_str) \<and> truthy rrule_str
      then Inl BothWindows
      else if truthy freeze_start_str \<and> truthy freeze_end_str
      then (case fixed_window L tz now_local (the freeze_start_str) (the freeze_end_str) of
              Raises \<Rightarrow> Inl FixedWindowDates
            | Returns ev \<Rightarrow> Inr ev)
      else if truthy rrule_str
      then (if \<not> truthy duration_mins
            then Inl DurationRequired
            else (case recurring_window L tz now_local (the rrule_str) (the duration_mins) of
                    Raises \<Rightarrow> Inl ProcessRrule
                  | Returns ev \<Rightarrow> Inr ev))
      else Inr no_window)"

subsection \<open>3. Override logic\<close>

record override =
  overridden :: bool
  override_reason_text :: string

definition no_override :: override where
  "no_override = \<lparr>overridden = False, override_reason_text = []\<rparr>"

definition label_override :: "world \<Rightarrow> string option \<Rightarrow> override" where
  \<comment> \<open>the label check; every failure inside leaves the two variables as they were\<close>
  "label_override w allow_override_label =
     (if truthy allow_override_label \<and> environ w ''GITHUB_EVENT_NAME'' = Some ''pull_request''
      then
        (let event_path = environ w ''GITHUB_EVENT_PATH'' in
         if truthy event_path \<and> path_exists w (the event_path)
         then (case load_json w (the event_path) of
                 Raises \<Rightarrow> no_override
               | Returns payload \<Rightarrow>
                   (case pr_labels payload of
                      Raises \<Rightarrow> no_override
                    | Returns labels \<Rightarrow>
                        if JStr (the allow_override_label) \<in> set labels
                        then \<lparr>overridden = True,
                              override_reason_text =
                                ''PR label '' @ apostrophe @ the allow_override_label
                                  @ apostrophe @ '' matched''\<rparr>
                        else no_override))
         else no_override)
      else no_override)"

definition actor_override :: "world \<Rightarrow> string option \<Rightarrow> override \<Rightarrow> override" where
  "actor_override w allow_override_actor ov =
     (if truthy allow_override_actor \<and> \<not> overridden ov
      then (let actor = environ w ''GITHUB_ACTOR'' in
            if actor = allow_override_actor
            then \<lparr>overridden = True,
                  override_reason_text =
                    ''Actor '' @ apostrophe @ the actor @ apostrophe
                      @ '' is allowed to override''\<rparr>
            else ov)
      else ov)"

definition override_logic :: "world \<Rightarrow> bool \<Rightarrow> override" where
  "override_logic w frozen =
     (if frozen
      then actor_override w (get_input w ''allow_override_actor'' None)
             (label_override w (get_input w ''allow_override_label'' None))
      else no_override)"

subsection \<open>4. Decision\<close>

record decision =
  final_decision :: string
  exit_code :: int
  final_reason :: string

definition decide :: "bool \<Rightarrow> override \<Rightarrow> string \<Rightarrow> string \<Rightarrow> decision" where
  \<comment> \<open>\<open>rsn\<close> is the variable \<^verbatim>\<open>reason\<close> as the freeze logic left it\<close>
  "decide frozen ov behavior rsn =
     (if frozen \<and> \<not> overridden ov
      then (if behavior = ''block''
            then \<lparr>final_decision = ''BLOCK'', exit_code = 1, final_reason = rsn\<rparr>
            else if behavior = ''warn''
            then \<lparr>final_decision = ''WARN'', exit_code = 0, final_reason = rsn\<rparr>
            else \<lparr>final_decision = ''ALLOW'', exit_code = 0, final_reason = rsn\<rparr>)
      else if frozen \<and> overridden ov
      then \<lparr>final_decision = ''ALLOW'', exit_code = 0,
            final_reason = ''Frozen but overridden: '' @ override_reason_text ov\<rparr>
      else \<lparr>final_decision = ''ALLOW'', exit_code = 0, final_reason = rsn\<rparr>)"

subsection \<open>5. Outputs, 6. Summary\<close>

definition bool_str :: "bool \<Rightarrow> string" where
  "bool_str b = (if b then ''true'' else ''false'')"

definition output_lines ::
  "lib \<Rightarrow> string \<Rightarrow> aware \<Rightarrow> aware \<Rightarrow> evaluation \<Rightarrow> override \<Rightarrow> decision \<Rightarrow> (string \<times> string) list"
where
  \<comment> \<open>the twelve \<^verbatim>\<open>set_output\<close> calls, in order\<close>
  "output_lines L env_name now_local now_utc ev ov d =
     [(''is_frozen'', bool_str (is_frozen ev)),
      (''decision'', final_decision d),
      (''environment'', env_name),
      (''now_local'', isoformat L now_local),
      (''now_utc'', isoformat L now_utc),
      (''window_type'', window_type ev),
      (''window_name'', window_name ev),
      (''reason'', final_reason d),
      (''freeze_start'', (case active_start ev of None \<Rightarrow> [] | Some a \<Rightarrow> isoformat L a)),
      (''freeze_end'', (case active_end ev of None \<Rightarrow> [] | Some a \<Rightarrow> isoformat L a)),
      (''overridden'', bool_str (overridden ov)),
      (''override_reason'', override_reason_text ov)]"

definition writable :: "world \<Rightarrow> string \<Rightarrow> bool" where
  \<comment> \<open>\<^verbatim>\<open>open(os.environ[var], 'a')\<close> succeeds\<close>
  "writable w var = (case environ w var of None \<Rightarrow> False | Some p \<Rightarrow> can_append w p)"

definition window_details :: "lib \<Rightarrow> evaluation \<Rightarrow> string" where
  "window_details L ev =
     (case (active_start ev, active_end ev) of
        (Some a, Some b) \<Rightarrow>
          ''- **Start:** '' @ str_datetime L a @ [CHR 0x0A] @ ''- **End:** '' @ str_datetime L b
      | _ \<Rightarrow> [])"

definition summary_enabled :: "world \<Rightarrow> bool" where
  "summary_enabled w = (lower (get_input_str w ''summary'' ''true'') = ''true'')"

subsection \<open>main\<close>

definition main :: "lib \<Rightarrow> world \<Rightarrow> run" where
  "main L w =
     (let env_name = get_input w ''environment'' None in
      if \<not> truthy env_name then abort EnvironmentRequired
      else
        let behavior = lower (get_input_str w ''behavior'' ''block'');
            tz_str = get_input_str w ''timezone'' ''UTC''
        in
        case parse_timezone L tz_str of
          Inl e \<Rightarrow> abort e
        | Inr tz \<Rightarrow>
            let now_utc = \<lparr>utc = now w, utcoffset = 0\<rparr>;
                now_local = astimezone tz (now w)
            in
            (case freeze_logic L w tz now_local of
               Inl e \<Rightarrow> abort e
             | Inr ev \<Rightarrow>
                 let ov = override_logic w (is_frozen ev);
                     d = decide (is_frozen ev) ov behavior (reason ev)
                 in
                 if \<not> writable w ''GITHUB_OUTPUT''
                 then \<lparr>status = Uncaught, fatal = None, outputs = [], summary = None\<rparr>
                 else
                   let out = output_lines L (the env_name) now_local now_utc ev ov d in
                   if \<not> summary_enabled w
                   then \<lparr>status = SysExit (exit_code d), fatal = None,
                         outputs = out, summary = None\<rparr>
                   else if \<not> writable w ''GITHUB_STEP_SUMMARY''
                   then \<lparr>status = Uncaught, fatal = None, outputs = out, summary = None\<rparr>
                   else
                     \<lparr>status = SysExit (exit_code d), fatal = None, outputs = out,
                      summary = Some
                        \<lparr>s_environ = the env_name,
                         s_now_local = strftime L now_local ''%Y-%m-%d %H:%M:%S %Z'',
                         s_now_utc = strftime L now_utc ''%Y-%m-%d %H:%M:%S UTC'',
                         s_is_frozen = is_frozen ev,
                         s_decision = final_decision d,
                         s_window_details = window_details L ev,
                         s_override_details = override_reason_text ov\<rparr>\<rparr>))"

section \<open>A sample run\<close>

text \<open>
  The setting of the repository's tests, for evaluating the model at concrete inputs: the
  zone \<^verbatim>\<open>UTC\<close>, the event file \<^verbatim>\<open>event.json\<close> with the labels \<^verbatim>\<open>hotfix-override\<close> and
  \<^verbatim>\<open>bug\<close>, the two channel files of the runner. \<open>sample_lib\<close> is a fragment of the
  libraries: it agrees with them on the zone name, the date strings, the integers and the
  two rules used below (a daily rule without \<^verbatim>\<open>DTSTART\<close>, which \<^verbatim>\<open>dateutil\<close> starts at the
  given \<^verbatim>\<open>dtstart\<close> cut to whole seconds, and a weekly rule that starts on Saturday
  2023-11-04 at midnight), raises on the unreadable strings used below, and leaves the
  formatting of a time as a placeholder.
\<close>

definition day :: int where
  "day = 86400000000"

definition pytz_utc :: tzinfo where
  "pytz_utc = \<lparr>localize = (\<lambda>n. Returns \<lparr>utc = n, utcoffset = 0\<rparr>), utcoffset_at = (\<lambda>t. 0)\<rparr>"

definition every :: "int \<Rightarrow> int \<Rightarrow> rule" where
  "every period start t =
     Returns (if t < start then None else Some (start + (t - start) div period * period))"

definition weekly_from_saturday :: string where
  "weekly_from_saturday = ''DTSTART:20231104T000000'' @ [CHR 0x0A] @ ''RRULE:FREQ=WEEKLY''"

definition sample_rrulestr :: "string \<Rightarrow> int \<Rightarrow> rule py" where
  "sample_rrulestr s dtstart =
     (if s = ''FREQ=DAILY'' then Returns (every day (dtstart - dtstart mod 1000000))
      else if s = weekly_from_saturday then Returns (every (7 * day) (738827 * day))
      else Raises)"

definition sample_parse :: "string \<Rightarrow> datetime py" where
  "sample_parse s =
     (if s = ''2023-12-24T00:00'' then Returns (Naive (738877 * day))
      else if s = ''2023-12-26T00:00'' then Returns (Naive (738879 * day))
      else Raises)"

definition sample_int :: "string \<Rightarrow> int py" where
  "sample_int s =
     (if s = ''1440'' then Returns 1440
      else if s = ''0'' then Returns 0
      else if s = ''-30'' then Returns (- 30)
      else if s = ''-1100000000'' then Returns (- 1100000000)
      else Raises)"

definition sample_lib :: lib where
  "sample_lib =
     \<lparr>pytz_timezone = (\<lambda>s. if s = ''UTC'' then Returns pytz_utc else Raises),
      parser_parse = sample_parse,
      rrulestr = sample_rrulestr,
      py_int = sample_int,
      isoformat = (\<lambda>a. ''(isoformat)''),
      strftime = (\<lambda>a f. f),
      str_datetime = (\<lambda>a. ''(str)'')\<rparr>"

definition hotfix_payload :: json where
  "hotfix_payload =
     JDict [(''pull_request'',
       JDict [(''labels'',
         JList [JDict [(''name'', JStr ''hotfix-override'')], JDict [(''name'', JStr ''bug'')]])])]"

definition workflow :: "(string \<times> string) list \<Rightarrow> int \<Rightarrow> world" where
  "workflow vars t =
     \<lparr>environ = map_of (vars @ [(''GITHUB_OUTPUT'', ''github_output.txt''),
                                (''GITHUB_STEP_SUMMARY'', ''github_summary.txt'')]),
      now = t,
      path_exists = (\<lambda>p. p = ''event.json'' \<or> p = ''broken.json''),
      load_json = (\<lambda>p. if p = ''event.json'' then Returns hotfix_payload else Raises),
      can_append = (\<lambda>p. p = ''github_output.txt'' \<or> p = ''github_summary.txt'')\<rparr>"

definition christmas :: int where
  \<comment> \<open>2023-12-25T10:00:00Z\<close>
  "christmas = 738878 * day + 36000000000"

definition saturday_noon :: int where
  \<comment> \<open>2023-11-04T12:00:00Z\<close>
  "saturday_noon = 738827 * day + 43200000000"

definition fixed_run :: "(string \<times> string) list \<Rightarrow> int \<Rightarrow> world" where
  \<comment> \<open>the fixed window of the tests, 24 to 26 December 2023\<close>
  "fixed_run vars t =
     workflow ([(''INPUT_ENVIRONMENT'', ''production''),
                (''INPUT_FREEZE_START'', ''2023-12-24T00:00''),
                (''INPUT_FREEZE_END'', ''2023-12-26T00:00'')] @ vars) t"

definition frozen_run :: "(string \<times> string) list \<Rightarrow> world" where
  "frozen_run vars = fixed_run vars christmas"

definition weekend_run :: "string \<Rightarrow> int \<Rightarrow> world" where
  "weekend_run duration_mins t =
     workflow [(''INPUT_ENVIRONMENT'', ''production''),
               (''INPUT_RRULE'', weekly_from_saturday),
               (''INPUT_DURATION_MINUTES'', duration_mins)] t"

definition both_run :: world where
  "both_run =
     fixed_run [(''INPUT_RRULE'', ''FREQ=DAILY''), (''INPUT_DURATION_MINUTES'', ''1440'')] christmas"

definition configured :: "(string \<times> string) list \<Rightarrow> world" where
  "configured vars = workflow ((''INPUT_ENVIRONMENT'', ''production'') # vars) christmas"

definition actor_run :: "int \<Rightarrow> world" where
  "actor_run t =
     fixed_run [(''INPUT_ALLOW_OVERRIDE_ACTOR'', ''maintainer_user''),
                (''GITHUB_ACTOR'', ''maintainer_user'')] t"

definition label_run :: "string \<Rightarrow> world" where
  "label_run event_path =
     frozen_run [(''INPUT_ALLOW_OVERRIDE_LABEL'', ''hotfix-override''),
                 (''INPUT_ALLOW_OVERRIDE_ACTOR'', ''maintainer_user''),
                 (''GITHUB_ACTOR'', ''maintainer_user''),
                 (''GITHUB_EVENT_NAME'', ''pull_request''),
                 (''GITHUB_EVENT_PATH'', event_path)]"

section \<open>The decision table of the specification\<close>

text \<open>
  Section 4.4 of the specification, row by row: this definition follows the
  specification, not the script, and \<open>decide\<close> is compared with it below.
\<close>

definition table_4_4 :: "bool \<Rightarrow> bool \<Rightarrow> string \<Rightarrow> string \<times> int" where
  "table_4_4 isFrozen isOverridden behavior =
     (if \<not> isFrozen then (''ALLOW'', 0)
      else if isOverridden then (''ALLOW'', 0)
      else if behavior = ''block'' then (''BLOCK'', 1)
      else if behavior = ''warn'' then (''WARN'', 0)
      else (''ALLOW'', 0))"

section \<open>Properties\<close>

subsection \<open>Evaluating the script\<close>

lemma upper_names:
  "upper ''environment'' = Some ''ENVIRONMENT''"
  "upper ''freeze_start'' = Some ''FREEZE_START''"
  "upper ''freeze_end'' = Some ''FREEZE_END''"
  "upper ''rrule'' = Some ''RRULE''"
  "upper ''duration_minutes'' = Some ''DURATION_MINUTES''"
  "upper ''allow_override_label'' = Some ''ALLOW_OVERRIDE_LABEL''"
  "upper ''allow_override_actor'' = Some ''ALLOW_OVERRIDE_ACTOR''"
  "upper ''behavior'' = Some ''BEHAVIOR''"
  "upper ''timezone'' = Some ''TIMEZONE''"
  "upper ''summary'' = Some ''SUMMARY''"
  by (simp_all add: upper_char_def char_of_def bit_iff_odd)

lemma input_names:
  "get_input w ''environment'' d = (case environ w ''INPUT_ENVIRONMENT'' of None \<Rightarrow> d | Some v \<Rightarrow> Some v)"
  "get_input w ''freeze_start'' d = (case environ w ''INPUT_FREEZE_START'' of None \<Rightarrow> d | Some v \<Rightarrow> Some v)"
  "get_input w ''freeze_end'' d = (case environ w ''INPUT_FREEZE_END'' of None \<Rightarrow> d | Some v \<Rightarrow> Some v)"
  "get_input w ''rrule'' d = (case environ w ''INPUT_RRULE'' of None \<Rightarrow> d | Some v \<Rightarrow> Some v)"
  "get_input w ''duration_minutes'' d = (case environ w ''INPUT_DURATION_MINUTES'' of None \<Rightarrow> d | Some v \<Rightarrow> Some v)"
  "get_input w ''allow_override_label'' d = (case environ w ''INPUT_ALLOW_OVERRIDE_LABEL'' of None \<Rightarrow> d | Some v \<Rightarrow> Some v)"
  "get_input w ''allow_override_actor'' d = (case environ w ''INPUT_ALLOW_OVERRIDE_ACTOR'' of None \<Rightarrow> d | Some v \<Rightarrow> Some v)"
  "get_input w ''behavior'' d = (case environ w ''INPUT_BEHAVIOR'' of None \<Rightarrow> d | Some v \<Rightarrow> Some v)"
  "get_input w ''timezone'' d = (case environ w ''INPUT_TIMEZONE'' of None \<Rightarrow> d | Some v \<Rightarrow> Some v)"
  "get_input w ''summary'' d = (case environ w ''INPUT_SUMMARY'' of None \<Rightarrow> d | Some v \<Rightarrow> Some v)"
  unfolding get_input_def upper_names by simp_all

lemma lower_values:
  "lower ''block'' = ''block''"
  "lower ''warn'' = ''warn''"
  "lower ''allow'' = ''allow''"
  "lower ''true'' = ''true''"
  "lower ''Block'' = ''block''"
  "lower ''strict'' = ''strict''"
  by (simp_all add: lower_def lower_char_def char_of_def bit_iff_odd)

lemmas python_defs = truthy_def lower_values apostrophe_def datetime_max_def timedelta_min_def
  timedelta_max_def timedelta_minutes_def datetime_add_def replace_tzinfo_None_def
  astimezone_def pr_labels_def

lemmas script_defs = input_names get_input_str_def abort_def parse_timezone_def no_window_def
  localize_if_naive_def fixed_window_def recurring_window_def freeze_logic_def no_override_def
  label_override_def actor_override_def override_logic_def decide_def bool_str_def
  output_lines_def writable_def window_details_def summary_enabled_def main_def

lemmas sample_defs = day_def pytz_utc_def every_def weekly_from_saturday_def sample_rrulestr_def
  sample_parse_def sample_int_def sample_lib_def hotfix_payload_def workflow_def christmas_def
  saturday_noon_def

lemmas world_defs = fixed_run_def frozen_run_def weekend_run_def both_run_def configured_def
  workflow_def

lemma main_completed:
  assumes "truthy (get_input w ''environment'' None)"
    and "parse_timezone L (get_input_str w ''timezone'' ''UTC'') = Inr tz"
    and "freeze_logic L w tz (astimezone tz (now w)) = Inr ev"
    and "writable w ''GITHUB_OUTPUT''"
  shows "outputs (main L w) =
           output_lines L (the (get_input w ''environment'' None)) (astimezone tz (now w))
             \<lparr>utc = now w, utcoffset = 0\<rparr> ev (override_logic w (is_frozen ev))
             (decide (is_frozen ev) (override_logic w (is_frozen ev))
                (lower (get_input_str w ''behavior'' ''block'')) (reason ev))"
    and "fatal (main L w) = None"
    and "status (main L w) \<noteq> Uncaught \<Longrightarrow>
           status (main L w) =
             SysExit (exit_code (decide (is_frozen ev) (override_logic w (is_frozen ev))
                (lower (get_input_str w ''behavior'' ''block'')) (reason ev)))"
    and "(summary_enabled w \<longrightarrow> writable w ''GITHUB_STEP_SUMMARY'') \<Longrightarrow>
           status (main L w) \<noteq> Uncaught"
  using assms by (auto simp: main_def Let_def split: if_splits)

lemma main_reported:
  assumes "outputs (main L w) \<noteq> []"
  shows "\<exists>tz ev. truthy (get_input w ''environment'' None)
      \<and> parse_timezone L (get_input_str w ''timezone'' ''UTC'') = Inr tz
      \<and> freeze_logic L w tz (astimezone tz (now w)) = Inr ev
      \<and> writable w ''GITHUB_OUTPUT''"
  using assms by (auto simp: main_def Let_def abort_def split: sum.splits if_splits)

lemma main_exited:
  assumes "fatal (main L w) = None" and "status (main L w) \<noteq> Uncaught"
  shows "\<exists>tz ev. truthy (get_input w ''environment'' None)
      \<and> parse_timezone L (get_input_str w ''timezone'' ''UTC'') = Inr tz
      \<and> freeze_logic L w tz (astimezone tz (now w)) = Inr ev
      \<and> writable w ''GITHUB_OUTPUT''"
  using assms by (auto simp: main_def Let_def abort_def split: sum.splits if_splits)

lemma output_lines_lookup:
  "map_of (output_lines L e nl nu ev ov d) ''is_frozen'' = Some (bool_str (is_frozen ev))"
  "map_of (output_lines L e nl nu ev ov d) ''decision'' = Some (final_decision d)"
  "map_of (output_lines L e nl nu ev ov d) ''window_type'' = Some (window_type ev)"
  "map_of (output_lines L e nl nu ev ov d) ''reason'' = Some (final_reason d)"
  "map_of (output_lines L e nl nu ev ov d) ''overridden'' = Some (bool_str (overridden ov))"
  "map_of (output_lines L e nl nu ev ov d) ''override_reason'' = Some (override_reason_text ov)"
  by (simp_all add: output_lines_def)

subsection \<open>The decision\<close>

lemma frozen_warn_run:
  "main sample_lib (frozen_run [(''INPUT_BEHAVIOR'', ''warn'')]) =
    \<lparr>status = SysExit 0, fatal = None,
     outputs =
      [(''is_frozen'', ''true''), (''decision'', ''WARN''),
       (''environment'', ''production''), (''now_local'', ''(isoformat)''),
       (''now_utc'', ''(isoformat)''), (''window_type'', ''FIXED''),
       (''window_name'', ''Fixed Freeze Window''),
       (''reason'', ''Current time is within fixed freeze window''),
       (''freeze_start'', ''(isoformat)''),
       (''freeze_end'', ''(isoformat)''), (''overridden'', ''false''),
       (''override_reason'', [])],
     summary =
      Some
       \<lparr>s_environ = ''production'', s_now_local = ''%Y-%m-%d %H:%M:%S %Z'',
          s_now_utc = ''%Y-%m-%d %H:%M:%S UTC'', s_is_frozen = True,
          s_decision = ''WARN'',
          s_window_details = ''- **Start:** (str)'' @ [CHR 0x0A] @ ''- **End:** (str)'',
          s_override_details = []\<rparr>\<rparr>"
  by (simp add: world_defs python_defs script_defs sample_defs)

lemma frozen_block_run:
  "main sample_lib (frozen_run [(''INPUT_BEHAVIOR'', ''Block'')]) =
    \<lparr>status = SysExit 1, fatal = None,
     outputs =
      [(''is_frozen'', ''true''), (''decision'', ''BLOCK''),
       (''environment'', ''production''), (''now_local'', ''(isoformat)''),
       (''now_utc'', ''(isoformat)''), (''window_type'', ''FIXED''),
       (''window_name'', ''Fixed Freeze Window''),
       (''reason'', ''Current time is within fixed freeze window''),
       (''freeze_start'', ''(isoformat)''),
       (''freeze_end'', ''(isoformat)''), (''overridden'', ''false''),
       (''override_reason'', [])],
     summary =
      Some
       \<lparr>s_environ = ''production'', s_now_local = ''%Y-%m-%d %H:%M:%S %Z'',
          s_now_utc = ''%Y-%m-%d %H:%M:%S UTC'', s_is_frozen = True,
          s_decision = ''BLOCK'',
          s_window_details = ''- **Start:** (str)'' @ [CHR 0x0A] @ ''- **End:** (str)'',
          s_override_details = []\<rparr>\<rparr>"
  by (simp add: world_defs python_defs script_defs sample_defs)

lemma frozen_strict_run:
  "main sample_lib (frozen_run [(''INPUT_BEHAVIOR'', ''strict'')]) =
    \<lparr>status = SysExit 0, fatal = None,
     outputs =
      [(''is_frozen'', ''true''), (''decision'', ''ALLOW''),
       (''environment'', ''production''), (''now_local'', ''(isoformat)''),
       (''now_utc'', ''(isoformat)''), (''window_type'', ''FIXED''),
       (''window_name'', ''Fixed Freeze Window''),
       (''reason'', ''Current time is within fixed freeze window''),
       (''freeze_start'', ''(isoformat)''),
       (''freeze_end'', ''(isoformat)''), (''overridden'', ''false''),
       (''override_reason'', [])],
     summary =
      Some
       \<lparr>s_environ = ''production'', s_now_local = ''%Y-%m-%d %H:%M:%S %Z'',
          s_now_utc = ''%Y-%m-%d %H:%M:%S UTC'', s_is_frozen = True,
          s_decision = ''ALLOW'',
          s_window_details = ''- **Start:** (str)'' @ [CHR 0x0A] @ ''- **End:** (str)'',
          s_override_details = []\<rparr>\<rparr>"
  by (simp add: world_defs python_defs script_defs sample_defs)

text \<open>
  C1. The decision and the exit code follow the table of section 4.4 for every
  combination of frozen, overridden and behavior: this holds of the decision step for
  all its arguments, and of every run that ends in \<^verbatim>\<open>sys.exit(exit_code)\<close>, whose reported
  \<^verbatim>\<open>decision\<close> and whose exit code are the table's entry for the reported \<^verbatim>\<open>is_frozen\<close> and
  \<^verbatim>\<open>overridden\<close> and the lower-cased \<^verbatim>\<open>behavior\<close> input. A behavior that is neither
  \<^verbatim>\<open>block\<close> nor \<^verbatim>\<open>warn\<close> gives \<^verbatim>\<open>ALLOW\<close> and exit code 0.
\<close>

theorem decision_table:
  "(final_decision (decide frozen ov behavior rsn), exit_code (decide frozen ov behavior rsn))
     = table_4_4 frozen (overridden ov) behavior
   \<and> (fatal (main L w) = None \<and> status (main L w) \<noteq> Uncaught \<longrightarrow>
        (\<exists>f ovd. map_of (outputs (main L w)) ''is_frozen'' = Some (bool_str f)
           \<and> map_of (outputs (main L w)) ''overridden'' = Some (bool_str ovd)
           \<and> map_of (outputs (main L w)) ''decision''
               = Some (fst (table_4_4 f ovd (lower (get_input_str w ''behavior'' ''block''))))
           \<and> status (main L w)
               = SysExit (snd (table_4_4 f ovd (lower (get_input_str w ''behavior'' ''block''))))))"
proof (intro conjI impI)
  show row: "\<And>frozen ov behavior rsn. (final_decision (decide frozen ov behavior rsn), exit_code (decide frozen ov behavior rsn))
     = table_4_4 frozen (overridden ov) behavior"
    by (simp add: decide_def table_4_4_def)
  assume run: "fatal (main L w) = None \<and> status (main L w) \<noteq> Uncaught"
  then obtain tz ev where ok:
    "truthy (get_input w ''environment'' None)"
    "parse_timezone L (get_input_str w ''timezone'' ''UTC'') = Inr tz"
    "freeze_logic L w tz (astimezone tz (now w)) = Inr ev"
    "writable w ''GITHUB_OUTPUT''"
    using main_exited by blast
  let ?ov = "override_logic w (is_frozen ev)"
  let ?b = "lower (get_input_str w ''behavior'' ''block'')"
  let ?d = "decide (is_frozen ev) ?ov ?b (reason ev)"
  have out: "outputs (main L w) =
      output_lines L (the (get_input w ''environment'' None)) (astimezone tz (now w))
        \<lparr>utc = now w, utcoffset = 0\<rparr> ev ?ov ?d"
    by (rule main_completed(1) [OF ok])
  have st: "status (main L w) = SysExit (exit_code ?d)"
    using main_completed(3) [OF ok] run by simp
  have tab: "(final_decision ?d, exit_code ?d) = table_4_4 (is_frozen ev) (overridden ?ov) ?b"
    by (rule row)
  have "map_of (outputs (main L w)) ''is_frozen'' = Some (bool_str (is_frozen ev))"
    and "map_of (outputs (main L w)) ''overridden'' = Some (bool_str (overridden ?ov))"
    and "map_of (outputs (main L w)) ''decision''
           = Some (fst (table_4_4 (is_frozen ev) (overridden ?ov) ?b))"
    and "status (main L w) = SysExit (snd (table_4_4 (is_frozen ev) (overridden ?ov) ?b))"
    using tab [symmetric] by (simp_all add: out st output_lines_lookup)
  then show "\<exists>f ovd. map_of (outputs (main L w)) ''is_frozen'' = Some (bool_str f)
           \<and> map_of (outputs (main L w)) ''overridden'' = Some (bool_str ovd)
           \<and> map_of (outputs (main L w)) ''decision''
               = Some (fst (table_4_4 f ovd (lower (get_input_str w ''behavior'' ''block''))))
           \<and> status (main L w)
               = SysExit (snd (table_4_4 f ovd (lower (get_input_str w ''behavior'' ''block''))))"
    by blast
qed

theorem decision_table_witness:
  "fatal (main sample_lib (frozen_run [(''INPUT_BEHAVIOR'', ''warn'')])) = None
   \<and> status (main sample_lib (frozen_run [(''INPUT_BEHAVIOR'', ''warn'')])) \<noteq> Uncaught
   \<and> map_of (outputs (main sample_lib (frozen_run [(''INPUT_BEHAVIOR'', ''warn'')]))) ''is_frozen''
        = Some ''true''
   \<and> map_of (outputs (main sample_lib (frozen_run [(''INPUT_BEHAVIOR'', ''warn'')]))) ''decision''
        = Some ''WARN''
   \<and> status (main sample_lib (frozen_run [(''INPUT_BEHAVIOR'', ''warn'')])) = SysExit 0
   \<and> map_of (outputs (main sample_lib (frozen_run [(''INPUT_BEHAVIOR'', ''Block'')]))) ''decision''
        = Some ''BLOCK''
   \<and> status (main sample_lib (frozen_run [(''INPUT_BEHAVIOR'', ''Block'')])) = SysExit 1
   \<and> map_of (outputs (main sample_lib (frozen_run [(''INPUT_BEHAVIOR'', ''strict'')]))) ''decision''
        = Some ''ALLOW''
   \<and> status (main sample_lib (frozen_run [(''INPUT_BEHAVIOR'', ''strict'')])) = SysExit 0"
  using decision_table [of True no_override "''warn''" "[]" sample_lib
      "frozen_run [(''INPUT_BEHAVIOR'', ''warn'')]"]
    decision_table [of True no_override "''block''" "[]" sample_lib
      "frozen_run [(''INPUT_BEHAVIOR'', ''Block'')]"]
    decision_table [of True no_override "''strict''" "[]" sample_lib
      "frozen_run [(''INPUT_BEHAVIOR'', ''strict'')]"]
  by (simp add: frozen_warn_run frozen_block_run frozen_strict_run)

subsection \<open>The freeze windows\<close>

lemma main_is_frozen:
  assumes "truthy (get_input w ''environment'' None)"
    and "pytz_timezone L (get_input_str w ''timezone'' ''UTC'') = Returns tz"
    and "writable w ''GITHUB_OUTPUT''"
    and "freeze_logic L w tz (astimezone tz (now w)) = Inr ev"
  shows "map_of (outputs (main L w)) ''is_frozen'' = Some (bool_str (is_frozen ev))"
proof -
  have "parse_timezone L (get_input_str w ''timezone'' ''UTC'') = Inr tz"
    using assms(2) by (simp add: parse_timezone_def)
  from main_completed(1) [OF assms(1) this assms(4) assms(3)] show ?thesis
    by (simp add: output_lines_lookup)
qed

text \<open>
  C3. With a fixed window configured (both \<^verbatim>\<open>freeze_start\<close> and \<^verbatim>\<open>freeze_end\<close> supplied, no
  \<^verbatim>\<open>rrule\<close>) whose two dates parse and localize to \<open>dt_start\<close> and \<open>dt_end\<close>, the run
  reports \<^verbatim>\<open>is_frozen=true\<close> exactly when \<open>dt_start \<le> now \<le> dt_end\<close> as instants, both
  bounds included, and \<^verbatim>\<open>is_frozen=false\<close> at every instant before the start or after the
  end.
\<close>

theorem fixed_window_inclusive:
  assumes env: "truthy (get_input w ''environment'' None)"
    and tz: "pytz_timezone L (get_input_str w ''timezone'' ''UTC'') = Returns tz"
    and out: "writable w ''GITHUB_OUTPUT''"
    and fs: "get_input w ''freeze_start'' None = Some freeze_start_str" "freeze_start_str \<noteq> []"
    and fe: "get_input w ''freeze_end'' None = Some freeze_end_str" "freeze_end_str \<noteq> []"
    and rr: "\<not> truthy (get_input w ''rrule'' None)"
    and ps: "parser_parse L freeze_start_str = Returns parsed_start"
    and pe: "parser_parse L freeze_end_str = Returns parsed_end"
    and ls: "localize_if_naive tz parsed_start = Returns dt_start"
    and le: "localize_if_naive tz parsed_end = Returns dt_end"
  shows "map_of (outputs (main L w)) ''is_frozen''
           = Some (bool_str (utc dt_start \<le> now w \<and> now w \<le> utc dt_end))"
proof -
  have "\<exists>ev. freeze_logic L w tz (astimezone tz (now w)) = Inr ev
          \<and> is_frozen ev = (utc dt_start \<le> now w \<and> now w \<le> utc dt_end)"
    using fs fe rr ps pe ls le
    by (simp add: freeze_logic_def fixed_window_def truthy_def astimezone_def no_window_def)
  then obtain ev where "freeze_logic L w tz (astimezone tz (now w)) = Inr ev"
    and "is_frozen ev = (utc dt_start \<le> now w \<and> now w \<le> utc dt_end)" by blast
  with main_is_frozen [OF env tz out] show ?thesis by simp
qed

theorem fixed_window_inclusive_witness:
  "map_of (outputs (main sample_lib (fixed_run [] (738877 * day - 1)))) ''is_frozen'' = Some ''false''
   \<and> map_of (outputs (main sample_lib (fixed_run [] (738877 * day)))) ''is_frozen'' = Some ''true''
   \<and> map_of (outputs (main sample_lib (fixed_run [] christmas))) ''is_frozen'' = Some ''true''
   \<and> map_of (outputs (main sample_lib (fixed_run [] (738879 * day)))) ''is_frozen'' = Some ''true''
   \<and> map_of (outputs (main sample_lib (fixed_run [] (738879 * day + 1)))) ''is_frozen'' = Some ''false''"
proof -
  have env: "truthy (get_input (fixed_run [] t) ''environment'' None)" for t
    by (simp add: world_defs input_names truthy_def)
  have tz: "pytz_timezone sample_lib (get_input_str (fixed_run [] t) ''timezone'' ''UTC'')
      = Returns pytz_utc" for t
    by (simp add: world_defs input_names get_input_str_def sample_lib_def)
  have out: "writable (fixed_run [] t) ''GITHUB_OUTPUT''" for t
    by (simp add: world_defs writable_def)
  have fs: "get_input (fixed_run [] t) ''freeze_start'' None = Some ''2023-12-24T00:00''"
    and fe: "get_input (fixed_run [] t) ''freeze_end'' None = Some ''2023-12-26T00:00''"
    and rr: "\<not> truthy (get_input (fixed_run [] t) ''rrule'' None)" for t
    by (simp_all add: world_defs input_names truthy_def)
  have ps: "parser_parse sample_lib ''2023-12-24T00:00'' = Returns (Naive (738877 * day))"
    and pe: "parser_parse sample_lib ''2023-12-26T00:00'' = Returns (Naive (738879 * day))"
    by (simp_all add: sample_lib_def sample_parse_def)
  have ls: "localize_if_naive pytz_utc (Naive n) = Returns \<lparr>utc = n, utcoffset = 0\<rparr>" for n
    by (simp add: localize_if_naive_def pytz_utc_def)
  have at: "map_of (outputs (main sample_lib (fixed_run [] t))) ''is_frozen''
      = Some (bool_str (738877 * day \<le> t \<and> t \<le> 738879 * day))" for t
    using fixed_window_inclusive [OF env tz out fs _ fe _ rr ps pe ls ls, of t]
    by (simp add: world_defs)
  show ?thesis
    by (simp add: at bool_str_def day_def christmas_def)
qed

text \<open>
  C2. With a recurring window configured, when the rule gives \<open>last_start\<close> as its most
  recent occurrence at or before the local wall-clock time \<open>now_naive\<close> and
  \<^verbatim>\<open>duration_minutes\<close> reads as \<open>duration\<close>, the run reports \<^verbatim>\<open>is_frozen=true\<close> exactly when
  \<open>last_start \<le> now_naive < last_start + duration\<close> minutes: the interval is closed on the
  left and open on the right. The end of the window is taken to be a \<^verbatim>\<open>datetime\<close> that
  Python can represent and the zone can localize.
\<close>

theorem recurring_half_open:
  assumes env: "truthy (get_input w ''environment'' None)"
    and tz: "pytz_timezone L (get_input_str w ''timezone'' ''UTC'') = Returns tz"
    and out: "writable w ''GITHUB_OUTPUT''"
    and fs: "\<not> truthy (get_input w ''freeze_start'' None)"
    and fe: "\<not> truthy (get_input w ''freeze_end'' None)"
    and rr: "get_input w ''rrule'' None = Some rrule_str" "rrule_str \<noteq> []"
    and dm: "get_input w ''duration_minutes'' None = Some duration_mins" "duration_mins \<noteq> []"
    and dur: "py_int L duration_mins = Returns duration"
    and nn: "now_naive = now w + utcoffset_at tz (now w)"
    and rule: "rrulestr L rrule_str now_naive = Returns rule"
    and occ: "rule now_naive = Returns (Some last_start)" "last_start \<le> now_naive"
    and td: "timedelta_min \<le> duration * 60000000" "duration * 60000000 \<le> timedelta_max"
    and dt: "0 \<le> last_start + duration * 60000000"
            "last_start + duration * 60000000 \<le> datetime_max"
    and loc: "localize tz last_start \<noteq> Raises"
             "localize tz (last_start + duration * 60000000) \<noteq> Raises"
  shows "map_of (outputs (main L w)) ''is_frozen''
           = Some (bool_str (last_start \<le> now_naive
                              \<and> now_naive < last_start + duration * 60000000))"
proof -
  obtain a b where ab: "localize tz last_start = Returns a"
      "localize tz (last_start + duration * 60000000) = Returns b"
    using loc by (metis py.exhaust)
  have "\<exists>ev. recurring_window L tz (astimezone tz (now w)) rrule_str duration_mins = Returns ev
          \<and> is_frozen ev = (now_naive < last_start + duration * 60000000)"
    using dur rule occ td dt ab nn
    by (simp add: recurring_window_def astimezone_def replace_tzinfo_None_def
        timedelta_minutes_def datetime_add_def no_window_def)
  then have "\<exists>ev. freeze_logic L w tz (astimezone tz (now w)) = Inr ev
          \<and> is_frozen ev = (now_naive < last_start + duration * 60000000)"
    using fs fe rr dm by (auto simp: freeze_logic_def truthy_def)
  then obtain ev where "freeze_logic L w tz (astimezone tz (now w)) = Inr ev"
    and "is_frozen ev = (now_naive < last_start + duration * 60000000)" by blast
  with main_is_frozen [OF env tz out] occ(2) show ?thesis by simp
qed

theorem recurring_half_open_witness:
  "map_of (outputs (main sample_lib (weekend_run ''1440'' (738827 * day)))) ''is_frozen'' = Some ''true''
   \<and> map_of (outputs (main sample_lib (weekend_run ''1440'' saturday_noon))) ''is_frozen'' = Some ''true''
   \<and> map_of (outputs (main sample_lib (weekend_run ''1440'' (738828 * day - 1)))) ''is_frozen'' = Some ''true''
   \<and> map_of (outputs (main sample_lib (weekend_run ''1440'' (738828 * day)))) ''is_frozen'' = Some ''false''"
proof -
  let ?W = "weekend_run ''1440''"
  have env: "truthy (get_input (?W t) ''environment'' None)" for t
    by (simp add: world_defs input_names truthy_def)
  have tz: "pytz_timezone sample_lib (get_input_str (?W t) ''timezone'' ''UTC'')
      = Returns pytz_utc" for t
    by (simp add: world_defs input_names get_input_str_def sample_lib_def)
  have out: "writable (?W t) ''GITHUB_OUTPUT''" for t
    by (simp add: world_defs writable_def)
  have fs: "\<not> truthy (get_input (?W t) ''freeze_start'' None)"
    and fe: "\<not> truthy (get_input (?W t) ''freeze_end'' None)"
    and rr: "get_input (?W t) ''rrule'' None = Some weekly_from_saturday"
    and dm: "get_input (?W t) ''duration_minutes'' None = Some ''1440''" for t
    by (simp_all add: world_defs input_names truthy_def weekly_from_saturday_def)
  have rr2: "weekly_from_saturday \<noteq> []"
    by (simp add: weekly_from_saturday_def)
  have dur: "py_int sample_lib ''1440'' = Returns 1440"
    by (simp add: sample_lib_def sample_int_def)
  have nn: "t = now (?W t) + utcoffset_at pytz_utc (now (?W t))" for t
    by (simp add: world_defs pytz_utc_def)
  have rule: "rrulestr sample_lib weekly_from_saturday t
      = Returns (every (7 * day) (738827 * day))" for t
    by (simp add: sample_lib_def sample_rrulestr_def weekly_from_saturday_def)
  have occ: "738827 * day \<le> t \<Longrightarrow> t < 738834 * day \<Longrightarrow>
      every (7 * day) (738827 * day) t = Returns (Some (738827 * day))" for t
    by (simp add: every_def day_def)
  have loc: "localize pytz_utc n \<noteq> Raises" for n
    by (simp add: pytz_utc_def)
  have at: "map_of (outputs (main sample_lib (?W t))) ''is_frozen''
      = Some (bool_str (738827 * day \<le> t \<and> t < 738827 * day + 1440 * 60000000))"
    if "738827 * day \<le> t" "t < 738834 * day" for t
    using recurring_half_open [OF env tz out fs fe rr rr2 dm _ dur nn rule occ [OF that] _ _ _ _ _ loc loc] that
    by (simp add: timedelta_min_def timedelta_max_def datetime_max_def day_def)
  show ?thesis
    by (simp add: at bool_str_def day_def saturday_noon_def)
qed

subsection \<open>Fatal input errors\<close>

text \<open>
  C5. A configuration that supplies a fixed-window input (\<^verbatim>\<open>freeze_start\<close> or \<^verbatim>\<open>freeze_end\<close>)
  together with \<^verbatim>\<open>rrule\<close> always ends in a fatal error with exit code 1 and nothing
  written; with the environment name and the zone in order the error is the one about
  both windows. No window is evaluated: the run is the same whatever the date parser, the
  rule parser, the integer parser and the current instant are.
\<close>

theorem both_windows_fatal:
  assumes fixed: "truthy (get_input w ''freeze_start'' None) \<or> truthy (get_input w ''freeze_end'' None)"
    and rr: "truthy (get_input w ''rrule'' None)"
  shows "(\<exists>e. main L w = \<lparr>status = SysExit 1, fatal = Some e, outputs = [], summary = None\<rparr>)
    \<and> (truthy (get_input w ''environment'' None)
         \<and> pytz_timezone L (get_input_str w ''timezone'' ''UTC'') \<noteq> Raises
       \<longrightarrow> fatal (main L w) = Some BothWindows)
    \<and> main (L\<lparr>parser_parse := p, rrulestr := r, py_int := i\<rparr>) (w\<lparr>now := t\<rparr>) = main L w"
proof -
  have fl: "freeze_logic L' w' tz nl = Inl BothWindows"
    if "get_input w' = get_input w" for L' w' tz nl
    using fixed rr that by (auto simp: freeze_logic_def)
  have m: "main L' w' =
      (if \<not> truthy (get_input w ''environment'' None) then abort EnvironmentRequired
       else case pytz_timezone L (get_input_str w ''timezone'' ''UTC'') of
              Raises \<Rightarrow> abort (UnknownTimezone (get_input_str w ''timezone'' ''UTC''))
            | Returns tz \<Rightarrow> abort BothWindows)"
    if "get_input w' = get_input w" "pytz_timezone L' = pytz_timezone L" for L' w'
    using that fl [OF that(1)]
    by (simp add: main_def parse_timezone_def get_input_str_def split: py.splits)
  have a: "get_input (w\<lparr>now := t\<rparr>) = get_input w"
    by (intro ext) (simp add: get_input_def split: option.splits)
  have "main (L\<lparr>parser_parse := p, rrulestr := r, py_int := i\<rparr>) (w\<lparr>now := t\<rparr>) = main L w"
    using m [OF a, of "L\<lparr>parser_parse := p, rrulestr := r, py_int := i\<rparr>"] m [OF refl refl]
    by simp
  moreover have "\<exists>e. main L w = \<lparr>status = SysExit 1, fatal = Some e, outputs = [], summary = None\<rparr>"
    using m [OF refl refl] by (auto simp: abort_def split: py.splits)
  moreover have "truthy (get_input w ''environment'' None)
         \<and> pytz_timezone L (get_input_str w ''timezone'' ''UTC'') \<noteq> Raises
       \<longrightarrow> fatal (main L w) = Some BothWindows"
    using m [OF refl refl] by (auto simp: abort_def split: py.splits)
  ultimately show ?thesis by blast
qed

theorem both_windows_fatal_witness:
  "fatal (main sample_lib both_run) = Some BothWindows
   \<and> status (main sample_lib both_run) = SysExit 1
   \<and> outputs (main sample_lib both_run) = []"
proof -
  have fixed: "truthy (get_input both_run ''freeze_start'' None)
      \<or> truthy (get_input both_run ''freeze_end'' None)"
    and rr: "truthy (get_input both_run ''rrule'' None)"
    and env: "truthy (get_input both_run ''environment'' None)"
    by (simp_all add: world_defs input_names truthy_def)
  have tz: "pytz_timezone sample_lib (get_input_str both_run ''timezone'' ''UTC'') \<noteq> Raises"
    by (simp add: world_defs input_names get_input_str_def sample_lib_def)
  from both_windows_fatal [OF fixed rr, where L = sample_lib and p = "parser_parse sample_lib"
      and r = "rrulestr sample_lib" and i = "py_int sample_lib" and t = christmas] env tz
  show ?thesis
    by auto
qed

text \<open>
  C9. Each fatal input error (no \<^verbatim>\<open>environment\<close>, an unknown zone, both kinds of window,
  \<^verbatim>\<open>rrule\<close> without \<^verbatim>\<open>duration_minutes\<close>, a fixed window with a date that does not parse,
  a rule that does not parse) ends the run by \<^verbatim>\<open>sys.exit(1)\<close> with no output line and no
  summary written.
\<close>

theorem fatal_errors_write_nothing:
  assumes "\<not> truthy (get_input w ''environment'' None)
     \<or> pytz_timezone L (get_input_str w ''timezone'' ''UTC'') = Raises
     \<or> ((truthy (get_input w ''freeze_start'' None) \<or> truthy (get_input w ''freeze_end'' None))
          \<and> truthy (get_input w ''rrule'' None))
     \<or> (truthy (get_input w ''rrule'' None) \<and> \<not> truthy (get_input w ''duration_minutes'' None))
     \<or> (truthy (get_input w ''freeze_start'' None) \<and> truthy (get_input w ''freeze_end'' None)
          \<and> (parser_parse L (the (get_input w ''freeze_start'' None)) = Raises
              \<or> parser_parse L (the (get_input w ''freeze_end'' None)) = Raises))
     \<or> (truthy (get_input w ''rrule'' None)
          \<and> (\<forall>dtstart. rrulestr L (the (get_input w ''rrule'' None)) dtstart = Raises))"
  shows "\<exists>e. main L w = \<lparr>status = SysExit 1, fatal = Some e, outputs = [], summary = None\<rparr>"
proof (cases "truthy (get_input w ''environment'' None)")
  case False
  then show ?thesis by (simp add: main_def abort_def)
next
  case env: True
  show ?thesis
  proof (cases "pytz_timezone L (get_input_str w ''timezone'' ''UTC'')")
    case Raises
    with env show ?thesis by (simp add: main_def abort_def parse_timezone_def)
  next
    case (Returns tz)
    let ?fs = "get_input w ''freeze_start'' None"
    let ?fe = "get_input w ''freeze_end'' None"
    let ?rr = "get_input w ''rrule'' None"
    let ?nl = "astimezone tz (now w)"
    from assms env Returns consider
        (both) "(truthy ?fs \<or> truthy ?fe) \<and> truthy ?rr"
      | (duration) "\<not> truthy ?fs" "\<not> truthy ?fe" "truthy ?rr"
          "\<not> truthy (get_input w ''duration_minutes'' None)"
      | (dates) "truthy ?fs" "truthy ?fe" "\<not> truthy ?rr"
          "parser_parse L (the ?fs) = Raises \<or> parser_parse L (the ?fe) = Raises"
      | (rule) "\<not> truthy ?fs" "\<not> truthy ?fe" "truthy ?rr"
          "\<forall>dtstart. rrulestr L (the ?rr) dtstart = Raises"
      by (simp only: py.distinct not_True_eq_False) blast
    then have "\<exists>e. freeze_logic L w tz ?nl = Inl e"
    proof cases
      case both
      then show ?thesis by (simp add: freeze_logic_def)
    next
      case duration
      then show ?thesis by (simp add: freeze_logic_def)
    next
      case dates
      then have "fixed_window L tz ?nl (the ?fs) (the ?fe) = Raises"
        by (auto simp: fixed_window_def split: py.splits)
      with dates show ?thesis by (simp add: freeze_logic_def)
    next
      case rule
      then have "recurring_window L tz ?nl (the ?rr) d = Raises" for d
        by (simp add: recurring_window_def split: py.splits)
      with rule show ?thesis by (simp add: freeze_logic_def Let_def)
    qed
    then show ?thesis
      using env Returns by (auto simp: main_def abort_def parse_timezone_def)
  qed
qed

theorem fatal_errors_write_nothing_witness:
  "(status (main sample_lib (workflow [] christmas)) = SysExit 1
      \<and> outputs (main sample_lib (workflow [] christmas)) = [])
   \<and> (status (main sample_lib (configured [(''INPUT_TIMEZONE'', ''Mars/Olympus'')])) = SysExit 1
      \<and> outputs (main sample_lib (configured [(''INPUT_TIMEZONE'', ''Mars/Olympus'')])) = [])
   \<and> (status (main sample_lib both_run) = SysExit 1
      \<and> outputs (main sample_lib both_run) = [])
   \<and> (status (main sample_lib (configured [(''INPUT_RRULE'', ''FREQ=DAILY'')])) = SysExit 1
      \<and> outputs (main sample_lib (configured [(''INPUT_RRULE'', ''FREQ=DAILY'')])) = [])
   \<and> (status (main sample_lib (configured [(''INPUT_FREEZE_START'', ''2023-12-24T00:00''),
          (''INPUT_FREEZE_END'', ''soon'')])) = SysExit 1
      \<and> outputs (main sample_lib (configured [(''INPUT_FREEZE_START'', ''2023-12-24T00:00''),
          (''INPUT_FREEZE_END'', ''soon'')])) = [])
   \<and> (status (main sample_lib (configured [(''INPUT_RRULE'', ''FREQ=SOMETIMES''),
          (''INPUT_DURATION_MINUTES'', ''1440'')])) = SysExit 1
      \<and> outputs (main sample_lib (configured [(''INPUT_RRULE'', ''FREQ=SOMETIMES''),
          (''INPUT_DURATION_MINUTES'', ''1440'')])) = [])"
proof -
  have 1: "\<not> truthy (get_input (workflow [] christmas) ''environment'' None)"
    by (simp add: world_defs input_names truthy_def)
  have 2: "pytz_timezone sample_lib
      (get_input_str (configured [(''INPUT_TIMEZONE'', ''Mars/Olympus'')]) ''timezone'' ''UTC'') = Raises"
    by (simp add: world_defs input_names get_input_str_def sample_lib_def)
  have 3: "(truthy (get_input both_run ''freeze_start'' None)
        \<or> truthy (get_input both_run ''freeze_end'' None))
      \<and> truthy (get_input both_run ''rrule'' None)"
    by (simp add: world_defs input_names truthy_def)
  have 4: "truthy (get_input (configured [(''INPUT_RRULE'', ''FREQ=DAILY'')]) ''rrule'' None)
      \<and> \<not> truthy (get_input (configured [(''INPUT_RRULE'', ''FREQ=DAILY'')]) ''duration_minutes'' None)"
    by (simp add: world_defs input_names truthy_def)
  let ?W5 = "configured [(''INPUT_FREEZE_START'', ''2023-12-24T00:00''), (''INPUT_FREEZE_END'', ''soon'')]"
  have 5: "truthy (get_input ?W5 ''freeze_start'' None) \<and> truthy (get_input ?W5 ''freeze_end'' None)
      \<and> (parser_parse sample_lib (the (get_input ?W5 ''freeze_start'' None)) = Raises
          \<or> parser_parse sample_lib (the (get_input ?W5 ''freeze_end'' None)) = Raises)"
    by (simp add: world_defs input_names truthy_def sample_lib_def sample_parse_def)
  let ?W6 = "configured [(''INPUT_RRULE'', ''FREQ=SOMETIMES''), (''INPUT_DURATION_MINUTES'', ''1440'')]"
  have 6: "truthy (get_input ?W6 ''rrule'' None)
      \<and> (\<forall>dtstart. rrulestr sample_lib (the (get_input ?W6 ''rrule'' None)) dtstart = Raises)"
    by (simp add: world_defs input_names truthy_def sample_lib_def sample_rrulestr_def
        weekly_from_saturday_def)
  note fatal = fatal_errors_write_nothing [where L = sample_lib]
  have "status (main sample_lib (workflow [] christmas)) = SysExit 1
      \<and> outputs (main sample_lib (workflow [] christmas)) = []"
    using fatal [of "workflow [] christmas"] 1 by auto
  moreover have "status (main sample_lib (configured [(''INPUT_TIMEZONE'', ''Mars/Olympus'')])) = SysExit 1
      \<and> outputs (main sample_lib (configured [(''INPUT_TIMEZONE'', ''Mars/Olympus'')])) = []"
    using fatal [of "configured [(''INPUT_TIMEZONE'', ''Mars/Olympus'')]"] 2 by auto
  moreover have "status (main sample_lib both_run) = SysExit 1
      \<and> outputs (main sample_lib both_run) = []"
    using fatal [of both_run] 3 by auto
  moreover have "status (main sample_lib (configured [(''INPUT_RRULE'', ''FREQ=DAILY'')])) = SysExit 1
      \<and> outputs (main sample_lib (configured [(''INPUT_RRULE'', ''FREQ=DAILY'')])) = []"
    using fatal [of "configured [(''INPUT_RRULE'', ''FREQ=DAILY'')]"] 4 by auto
  moreover have "status (main sample_lib ?W5) = SysExit 1 \<and> outputs (main sample_lib ?W5) = []"
    using fatal [of ?W5] 5 by auto
  moreover have "status (main sample_lib ?W6) = SysExit 1 \<and> outputs (main sample_lib ?W6) = []"
    using fatal [of ?W6] 6 by auto
  ultimately show ?thesis by blast
qed

subsection \<open>Runs that agree on what the script reads\<close>

lemma main_cong:
  assumes "get_input w' ''environment'' None = get_input w ''environment'' None"
    and "get_input_str w' ''timezone'' ''UTC'' = get_input_str w ''timezone'' ''UTC''"
    and "get_input_str w' ''behavior'' ''block'' = get_input_str w ''behavior'' ''block''"
    and "summary_enabled w' = summary_enabled w"
    and "writable w' ''GITHUB_OUTPUT'' = writable w ''GITHUB_OUTPUT''"
    and "writable w' ''GITHUB_STEP_SUMMARY'' = writable w ''GITHUB_STEP_SUMMARY''"
    and "now w' = now w"
    and "\<And>tz nl. freeze_logic L w' tz nl = freeze_logic L w tz nl"
    and "\<And>f. override_logic w' f = override_logic w f"
  shows "main L w' = main L w"
  by (simp add: main_def Let_def assms split: sum.splits)

lemma freeze_logic_cong:
  assumes "get_input w' ''freeze_start'' None = get_input w ''freeze_start'' None"
    and "get_input w' ''freeze_end'' None = get_input w ''freeze_end'' None"
    and "get_input w' ''rrule'' None = get_input w ''rrule'' None"
    and "get_input w' ''duration_minutes'' None = get_input w ''duration_minutes'' None"
  shows "freeze_logic L w' tz nl = freeze_logic L w tz nl"
  by (simp add: freeze_logic_def assms)

lemma override_logic_cong:
  assumes "get_input w' ''allow_override_actor'' None = get_input w ''allow_override_actor'' None"
    and "get_input w' ''allow_override_label'' None = get_input w ''allow_override_label'' None"
    and "environ w' ''GITHUB_EVENT_NAME'' = environ w ''GITHUB_EVENT_NAME''"
    and "environ w' ''GITHUB_EVENT_PATH'' = environ w ''GITHUB_EVENT_PATH''"
    and "environ w' ''GITHUB_ACTOR'' = environ w ''GITHUB_ACTOR''"
    and "path_exists w' = path_exists w"
    and "load_json w' = load_json w"
  shows "override_logic w' f = override_logic w f"
  by (simp add: override_logic_def label_override_def actor_override_def Let_def assms
      cong: if_cong py.case_cong)

subsection \<open>A fixed window given by half\<close>

text \<open>
  C10. When exactly one of \<^verbatim>\<open>freeze_start\<close> and \<^verbatim>\<open>freeze_end\<close> is supplied and \<^verbatim>\<open>rrule\<close> is
  not, a run with an environment name, a known zone and writable channel files does
  not fail: it ends with exit code 0 and reports \<^verbatim>\<open>is_frozen=false\<close>,
  \<^verbatim>\<open>window_type=NONE\<close> and \<^verbatim>\<open>decision=ALLOW\<close>, and it is the very run obtained with
  neither of the two inputs set.
\<close>

theorem partial_fixed_window_ignored:
  assumes env: "truthy (get_input w ''environment'' None)"
    and tz: "pytz_timezone L (get_input_str w ''timezone'' ''UTC'') = Returns tz"
    and one: "truthy (get_input w ''freeze_start'' None) \<noteq> truthy (get_input w ''freeze_end'' None)"
    and rr: "\<not> truthy (get_input w ''rrule'' None)"
    and out: "writable w ''GITHUB_OUTPUT''"
    and sm: "summary_enabled w \<longrightarrow> writable w ''GITHUB_STEP_SUMMARY''"
  shows "fatal (main L w) = None
    \<and> status (main L w) = SysExit 0
    \<and> map_of (outputs (main L w)) ''is_frozen'' = Some ''false''
    \<and> map_of (outputs (main L w)) ''window_type'' = Some ''NONE''
    \<and> map_of (outputs (main L w)) ''decision'' = Some ''ALLOW''
    \<and> main L w = main L (w\<lparr>environ := (environ w)(''INPUT_FREEZE_START'' := None,
                                                    ''INPUT_FREEZE_END'' := None)\<rparr>)"
proof -
  let ?w = "w\<lparr>environ := (environ w)(''INPUT_FREEZE_START'' := None, ''INPUT_FREEZE_END'' := None)\<rparr>"
  have fl: "freeze_logic L w z nl = Inr no_window" for z nl
    using one rr by (auto simp: freeze_logic_def)
  have fl': "freeze_logic L ?w z nl = Inr no_window" for z nl
    using rr by (simp add: freeze_logic_def input_names truthy_def)
  have same: "get_input ?w ''environment'' None = get_input w ''environment'' None"
    "get_input_str ?w ''timezone'' ''UTC'' = get_input_str w ''timezone'' ''UTC''"
    "get_input_str ?w ''behavior'' ''block'' = get_input_str w ''behavior'' ''block''"
    "summary_enabled ?w = summary_enabled w"
    "writable ?w ''GITHUB_OUTPUT'' = writable w ''GITHUB_OUTPUT''"
    "writable ?w ''GITHUB_STEP_SUMMARY'' = writable w ''GITHUB_STEP_SUMMARY''"
    "now ?w = now w"
    by (simp_all add: input_names get_input_str_def summary_enabled_def writable_def
        split: option.splits)
  have ptz: "parse_timezone L (get_input_str w ''timezone'' ''UTC'') = Inr tz"
    using tz by (simp add: parse_timezone_def)
  have ov: "override_logic ?w f = override_logic w f" for f
    by (rule override_logic_cong) (simp_all add: input_names)
  have eq: "main L w = main L ?w"
    by (rule main_cong [symmetric]) (simp_all add: same fl fl' ov)
  have st: "status (main L w) = SysExit 0"
    using main_completed(3) [OF env ptz fl out] main_completed(4) [OF env ptz fl out] sm
    by (simp add: decide_def no_window_def)
  have outs: "outputs (main L w) =
           output_lines L (the (get_input w ''environment'' None)) (astimezone tz (now w))
             \<lparr>utc = now w, utcoffset = 0\<rparr> no_window (override_logic w (is_frozen no_window))
             (decide (is_frozen no_window) (override_logic w (is_frozen no_window))
                (lower (get_input_str w ''behavior'' ''block'')) (reason no_window))"
    by (rule main_completed(1) [OF env ptz fl out])
  have "map_of (outputs (main L w)) ''is_frozen'' = Some ''false''"
    and "map_of (outputs (main L w)) ''window_type'' = Some ''NONE''"
    and "map_of (outputs (main L w)) ''decision'' = Some ''ALLOW''"
    by (simp_all add: outs output_lines_lookup no_window_def bool_str_def decide_def)
  with eq st main_completed(2) [OF env ptz fl out] show ?thesis by simp
qed

theorem partial_fixed_window_ignored_witness:
  "status (main sample_lib (configured [(''INPUT_FREEZE_START'', ''2023-12-24T00:00'')])) = SysExit 0
   \<and> map_of (outputs (main sample_lib (configured [(''INPUT_FREEZE_START'', ''2023-12-24T00:00'')])))
        ''is_frozen'' = Some ''false''
   \<and> map_of (outputs (main sample_lib (configured [(''INPUT_FREEZE_START'', ''2023-12-24T00:00'')])))
        ''decision'' = Some ''ALLOW''
   \<and> status (main sample_lib (configured [(''INPUT_FREEZE_END'', ''soon'')])) = SysExit 0"
proof -
  have h: "truthy (get_input (configured [(k, v)]) ''environment'' None)"
    "pytz_timezone sample_lib (get_input_str (configured [(k, v)]) ''timezone'' ''UTC'') = Returns pytz_utc"
    "\<not> truthy (get_input (configured [(k, v)]) ''rrule'' None)"
    "writable (configured [(k, v)]) ''GITHUB_OUTPUT''"
    "summary_enabled (configured [(k, v)]) \<longrightarrow> writable (configured [(k, v)]) ''GITHUB_STEP_SUMMARY''"
    if "k = ''INPUT_FREEZE_START'' \<or> k = ''INPUT_FREEZE_END''" for k v
    using that
    by (auto simp: world_defs input_names truthy_def get_input_str_def sample_lib_def writable_def)
  have one: "truthy (get_input (configured [(''INPUT_FREEZE_START'', ''2023-12-24T00:00'')]) ''freeze_start'' None)
      \<noteq> truthy (get_input (configured [(''INPUT_FREEZE_START'', ''2023-12-24T00:00'')]) ''freeze_end'' None)"
    "truthy (get_input (configured [(''INPUT_FREEZE_END'', ''soon'')]) ''freeze_start'' None)
      \<noteq> truthy (get_input (configured [(''INPUT_FREEZE_END'', ''soon'')]) ''freeze_end'' None)"
    by (simp_all add: world_defs input_names truthy_def)
  show ?thesis
    using partial_fixed_window_ignored [OF h(1,2) one(1) h(3,4,5)]
      partial_fixed_window_ignored [OF h(1,2) one(2) h(3,4,5)]
    by blast
qed

subsection \<open>Overrides\<close>

lemmas run_defs = world_defs actor_run_def label_run_def

lemma bool_str_true: "bool_str a = ''true'' \<longleftrightarrow> a" "bool_str a = ''false'' \<longleftrightarrow> \<not> a"
  by (simp_all add: bool_str_def)

lemma main_outputs_cases:
  obtains "outputs (main L w) = []"
  | tz ev where "outputs (main L w) =
           output_lines L (the (get_input w ''environment'' None)) (astimezone tz (now w))
             \<lparr>utc = now w, utcoffset = 0\<rparr> ev (override_logic w (is_frozen ev))
             (decide (is_frozen ev) (override_logic w (is_frozen ev))
                (lower (get_input_str w ''behavior'' ''block'')) (reason ev))"
proof (cases "outputs (main L w) = []")
  case True
  then show ?thesis by (rule that(1))
next
  case False
  then obtain tz ev where "truthy (get_input w ''environment'' None)"
    "parse_timezone L (get_input_str w ''timezone'' ''UTC'') = Inr tz"
    "freeze_logic L w tz (astimezone tz (now w)) = Inr ev"
    "writable w ''GITHUB_OUTPUT''"
    using main_reported by blast
  from main_completed(1) [OF this] show ?thesis by (rule that(2))
qed

text \<open>
  C7. A run reports \<^verbatim>\<open>overridden=true\<close> only together with \<^verbatim>\<open>is_frozen=true\<close>: a run
  that reports \<^verbatim>\<open>is_frozen=false\<close> reports \<^verbatim>\<open>overridden=false\<close> and an empty override
  reason, whatever labels and actors are configured and present.
\<close>

theorem overridden_only_if_frozen:
  "(map_of (outputs (main L w)) ''overridden'' = Some ''true''
      \<longrightarrow> map_of (outputs (main L w)) ''is_frozen'' = Some ''true'')
   \<and> (map_of (outputs (main L w)) ''is_frozen'' = Some ''false''
      \<longrightarrow> map_of (outputs (main L w)) ''overridden'' = Some ''false''
          \<and> map_of (outputs (main L w)) ''override_reason'' = Some [])"
proof (cases rule: main_outputs_cases [of L w])
  case 1
  then show ?thesis by simp
next
  case (2 tz ev)
  show ?thesis
    by (cases "is_frozen ev")
       (simp_all add: 2 output_lines_lookup bool_str_def override_logic_def no_override_def)
qed

lemma actor_run_outputs:
  "map_of (outputs (main sample_lib (actor_run christmas))) ''overridden'' = Some ''true''"
  "map_of (outputs (main sample_lib (actor_run (738880 * day)))) ''is_frozen'' = Some ''false''"
  by (simp_all add: run_defs python_defs script_defs sample_defs)

theorem overridden_only_if_frozen_witness:
  "map_of (outputs (main sample_lib (actor_run christmas))) ''overridden'' = Some ''true''
   \<and> map_of (outputs (main sample_lib (actor_run christmas))) ''is_frozen'' = Some ''true''
   \<and> map_of (outputs (main sample_lib (actor_run (738880 * day)))) ''is_frozen'' = Some ''false''
   \<and> map_of (outputs (main sample_lib (actor_run (738880 * day)))) ''overridden'' = Some ''false''"
  using actor_run_outputs overridden_only_if_frozen [of sample_lib "actor_run christmas"]
    overridden_only_if_frozen [of sample_lib "actor_run (738880 * day)"]
  by blast

text \<open>
  C6. In a frozen run where the label override is configured and its label is among the
  labels read from the payload of a pull-request event, and the actor override is
  configured and matches as well, the label wins: the run reports \<^verbatim>\<open>overridden=true\<close> with
  the override reason \<^verbatim>\<open>PR label '<label>' matched\<close>, never the actor's reason, and decides
  \<^verbatim>\<open>ALLOW\<close>. The actor check leaves an override that is already set as it is.
\<close>

theorem label_override_wins:
  assumes frozen: "map_of (outputs (main L w)) ''is_frozen'' = Some ''true''"
    and label: "get_input w ''allow_override_label'' None = Some label" "label \<noteq> []"
    and event: "environ w ''GITHUB_EVENT_NAME'' = Some ''pull_request''"
    and path: "environ w ''GITHUB_EVENT_PATH'' = Some event_path" "event_path \<noteq> []"
      "path_exists w event_path"
    and payload: "load_json w event_path = Returns payload" "pr_labels payload = Returns labels"
      "JStr label \<in> set labels"
    and actor: "get_input w ''allow_override_actor'' None = Some actor" "actor \<noteq> []"
      "environ w ''GITHUB_ACTOR'' = Some actor"
  shows "map_of (outputs (main L w)) ''overridden'' = Some ''true''
    \<and> map_of (outputs (main L w)) ''override_reason''
        = Some (''PR label '' @ apostrophe @ label @ apostrophe @ '' matched'')
    \<and> map_of (outputs (main L w)) ''override_reason''
        \<noteq> Some (''Actor '' @ apostrophe @ actor @ apostrophe @ '' is allowed to override'')
    \<and> map_of (outputs (main L w)) ''reason''
        = Some (''Frozen but overridden: PR label '' @ apostrophe @ label @ apostrophe @ '' matched'')
    \<and> map_of (outputs (main L w)) ''decision'' = Some ''ALLOW''
    \<and> (overridden ov \<longrightarrow> actor_override w a ov = ov)"
proof -
  let ?lbl = "\<lparr>overridden = True,
      override_reason_text = ''PR label '' @ apostrophe @ label @ apostrophe @ '' matched''\<rparr>"
  have lo: "label_override w (get_input w ''allow_override_label'' None) = ?lbl"
    using label event path payload by (simp add: label_override_def truthy_def)
  have skip: "overridden ov \<longrightarrow> actor_override w a ov = ov" for a ov
    by (simp add: actor_override_def)
  have ol: "override_logic w True = ?lbl"
    using skip [of ?lbl] by (simp add: override_logic_def lo)
  show ?thesis
  proof (cases rule: main_outputs_cases [of L w])
    case 1
    with frozen show ?thesis by simp
  next
    case (2 tz ev)
    with frozen have fr: "is_frozen ev"
      by (simp add: output_lines_lookup bool_str_true)
    show ?thesis
      using skip [of ov a]
      by (simp add: 2 fr ol output_lines_lookup decide_def bool_str_def)
  qed
qed

lemma label_run_frozen:
  "map_of (outputs (main sample_lib (label_run ''event.json''))) ''is_frozen'' = Some ''true''"
  by (simp add: run_defs python_defs script_defs sample_defs)

theorem label_override_wins_witness:
  "map_of (outputs (main sample_lib (label_run ''event.json''))) ''overridden'' = Some ''true''
   \<and> map_of (outputs (main sample_lib (label_run ''event.json''))) ''override_reason''
       = Some (''PR label '' @ apostrophe @ ''hotfix-override'' @ apostrophe @ '' matched'')
   \<and> map_of (outputs (main sample_lib (label_run ''event.json''))) ''decision'' = Some ''ALLOW''"
proof -
  let ?W = "label_run ''event.json''"
  have label: "get_input ?W ''allow_override_label'' None = Some ''hotfix-override''"
    and actor: "get_input ?W ''allow_override_actor'' None = Some ''maintainer_user''"
    and env: "environ ?W ''GITHUB_EVENT_NAME'' = Some ''pull_request''"
      "environ ?W ''GITHUB_EVENT_PATH'' = Some ''event.json''"
      "environ ?W ''GITHUB_ACTOR'' = Some ''maintainer_user''"
    and evfile: "path_exists ?W ''event.json''" "load_json ?W ''event.json'' = Returns hotfix_payload"
    by (simp_all add: run_defs input_names)
  have labels: "pr_labels hotfix_payload = Returns [JStr ''hotfix-override'', JStr ''bug'']"
    by (simp add: pr_labels_def hotfix_payload_def)
  from label_override_wins [OF label_run_frozen label _ env(1,2) _ evfile labels _ actor _ env(3)]
  show ?thesis by simp
qed

text \<open>
  C8. With the label override configured on a pull-request event, a failure to read the
  payload (no event path, an empty one, a file that is not there, a file that cannot be
  opened or parsed, a payload of another shape) does not abort the run: the label check
  leaves no override, the actor check runs on from there, and the whole run (outputs,
  decision, exit code) is the run of the same configuration without the label override.
\<close>

theorem payload_failure_is_not_fatal:
  assumes label: "truthy (get_input w ''allow_override_label'' None)"
    and event: "environ w ''GITHUB_EVENT_NAME'' = Some ''pull_request''"
    and failure: "case environ w ''GITHUB_EVENT_PATH'' of
                    None \<Rightarrow> True
                  | Some event_path \<Rightarrow>
                      event_path = [] \<or> \<not> path_exists w event_path
                      \<or> (case load_json w event_path of
                            Raises \<Rightarrow> True
                          | Returns payload \<Rightarrow> pr_labels payload = Raises)"
  shows "label_override w (get_input w ''allow_override_label'' None) = no_override
    \<and> override_logic w True
        = actor_override w (get_input w ''allow_override_actor'' None) no_override
    \<and> main L w = main L (w\<lparr>environ := (environ w)(''INPUT_ALLOW_OVERRIDE_LABEL'' := None)\<rparr>)"
proof -
  let ?w = "w\<lparr>environ := (environ w)(''INPUT_ALLOW_OVERRIDE_LABEL'' := None)\<rparr>"
  have lo: "label_override w (get_input w ''allow_override_label'' None) = no_override"
    using failure
    by (auto simp: label_override_def truthy_def Let_def split: option.splits py.splits)
  have lo': "label_override ?w (get_input ?w ''allow_override_label'' None) = no_override"
    by (simp add: label_override_def input_names truthy_def)
  have ao: "actor_override ?w (get_input ?w ''allow_override_actor'' None) ov
      = actor_override w (get_input w ''allow_override_actor'' None) ov" for ov
    by (simp add: actor_override_def input_names)
  have ov: "override_logic ?w f = override_logic w f" for f
    by (simp add: override_logic_def lo lo' ao)
  have fl: "freeze_logic L ?w z nl = freeze_logic L w z nl" for z nl
    by (rule freeze_logic_cong) (simp_all add: input_names)
  have "main L ?w = main L w"
    by (rule main_cong)
       (simp_all add: fl ov input_names get_input_str_def summary_enabled_def writable_def
          split: option.splits)
  then show ?thesis
    by (simp add: lo override_logic_def)
qed

lemma broken_run_outputs:
  "map_of (outputs (main sample_lib (label_run ''broken.json''))) ''override_reason''
     = Some (''Actor '' @ apostrophe @ ''maintainer_user'' @ apostrophe @ '' is allowed to override'')"
  "status (main sample_lib (label_run ''broken.json'')) = SysExit 0"
  by (simp_all add: run_defs python_defs script_defs sample_defs)

theorem payload_failure_is_not_fatal_witness:
  "main sample_lib (label_run ''broken.json'')
     = main sample_lib ((label_run ''broken.json'')
         \<lparr>environ := (environ (label_run ''broken.json''))(''INPUT_ALLOW_OVERRIDE_LABEL'' := None)\<rparr>)
   \<and> main sample_lib (label_run ''missing.json'')
     = main sample_lib ((label_run ''missing.json'')
         \<lparr>environ := (environ (label_run ''missing.json''))(''INPUT_ALLOW_OVERRIDE_LABEL'' := None)\<rparr>)
   \<and> status (main sample_lib (label_run ''broken.json'')) = SysExit 0
   \<and> map_of (outputs (main sample_lib (label_run ''broken.json''))) ''override_reason''
     = Some (''Actor '' @ apostrophe @ ''maintainer_user'' @ apostrophe @ '' is allowed to override'')"
proof -
  have label: "truthy (get_input (label_run p) ''allow_override_label'' None)"
    and event: "environ (label_run p) ''GITHUB_EVENT_NAME'' = Some ''pull_request''" for p
    by (simp_all add: run_defs input_names truthy_def)
  have broken: "case environ (label_run ''broken.json'') ''GITHUB_EVENT_PATH'' of
                    None \<Rightarrow> True
                  | Some event_path \<Rightarrow>
                      event_path = [] \<or> \<not> path_exists (label_run ''broken.json'') event_path
                      \<or> (case load_json (label_run ''broken.json'') event_path of
                            Raises \<Rightarrow> True
                          | Returns payload \<Rightarrow> pr_labels payload = Raises)"
    by (simp add: run_defs)
  have missing: "case environ (label_run ''missing.json'') ''GITHUB_EVENT_PATH'' of
                    None \<Rightarrow> True
                  | Some event_path \<Rightarrow>
                      event_path = [] \<or> \<not> path_exists (label_run ''missing.json'') event_path
                      \<or> (case load_json (label_run ''missing.json'') event_path of
                            Raises \<Rightarrow> True
                          | Returns payload \<Rightarrow> pr_labels payload = Raises)"
    by (simp add: run_defs)
  from payload_failure_is_not_fatal [OF label event broken, of sample_lib]
    payload_failure_is_not_fatal [OF label event missing, of sample_lib]
    broken_run_outputs
  show ?thesis by blast
qed

subsection \<open>The duration of a recurring window\<close>

text \<open>
  The script asks only that \<^verbatim>\<open>duration_minutes\<close> be there when \<^verbatim>\<open>rrule\<close> is: the guard is
  \<^verbatim>\<open>if not duration_mins\<close> on the string, and nothing looks at the sign of the integer it
  reads. The weekly rule with \<^verbatim>\<open>duration_minutes\<close> set to \<^verbatim>\<open>0\<close>, seen on Saturday noon, is
  no fatal error: the run ends with exit code 0 and reports that nothing is frozen.
\<close>

theorem zero_duration_counterexample:
  "fatal (main sample_lib (weekend_run ''0'' saturday_noon)) = None
   \<and> status (main sample_lib (weekend_run ''0'' saturday_noon)) = SysExit 0
   \<and> map_of (outputs (main sample_lib (weekend_run ''0'' saturday_noon))) ''is_frozen''
       = Some ''false''
   \<and> map_of (outputs (main sample_lib (weekend_run ''0'' saturday_noon))) ''window_type''
       = Some ''NONE''"
  by (simp add: run_defs python_defs script_defs sample_defs)

text \<open>
  C4, as the script has it. When \<^verbatim>\<open>rrule\<close> is supplied (and no fixed-window input, the
  environment name and the zone in order), a
  missing or empty \<^verbatim>\<open>duration_minutes\<close> is a fatal error before any window is evaluated.
  A \<^verbatim>\<open>duration_minutes\<close> that reads as zero or as a negative integer is not rejected for
  its sign: the window is evaluated and, with the last occurrence at or before now, the
  run never reports \<^verbatim>\<open>is_frozen=true\<close>. When the occurrence plus the duration is a
  \<^verbatim>\<open>datetime\<close> Python can represent, there is no fatal error and the run, given a
  writable \<^verbatim>\<open>GITHUB_OUTPUT\<close>, reports \<^verbatim>\<open>is_frozen=false\<close>; when it is not (the \<^verbatim>\<open>timedelta\<close> or the sum overflows), the run ends
  with the fatal error of the recurring branch, exit code 1 and nothing written.
\<close>

theorem duration_minutes_required:
  assumes env: "truthy (get_input w ''environment'' None)"
    and tz: "pytz_timezone L (get_input_str w ''timezone'' ''UTC'') = Returns tz"
    and fs: "\<not> truthy (get_input w ''freeze_start'' None)"
    and fe: "\<not> truthy (get_input w ''freeze_end'' None)"
    and rr: "get_input w ''rrule'' None = Some rrule_str" "rrule_str \<noteq> []"
  shows "(\<not> truthy (get_input w ''duration_minutes'' None) \<longrightarrow>
           main L w = \<lparr>status = SysExit 1, fatal = Some DurationRequired,
                        outputs = [], summary = None\<rparr>)
    \<and> (get_input w ''duration_minutes'' None = Some duration_mins \<and> duration_mins \<noteq> []
         \<and> py_int L duration_mins = Returns duration \<and> duration \<le> 0
         \<and> now_naive = now w + utcoffset_at tz (now w)
         \<and> rrulestr L rrule_str now_naive = Returns rule
         \<and> rule now_naive = Returns (Some last_start) \<and> last_start \<le> now_naive
       \<longrightarrow> map_of (outputs (main L w)) ''is_frozen'' \<noteq> Some ''true''
           \<and> (if timedelta_min \<le> duration * 60000000
                  \<and> 0 \<le> last_start + duration * 60000000
                  \<and> last_start + duration * 60000000 \<le> datetime_max
               then fatal (main L w) = None
                    \<and> (writable w ''GITHUB_OUTPUT'' \<longrightarrow>
                          map_of (outputs (main L w)) ''is_frozen'' = Some ''false'')
               else main L w = \<lparr>status = SysExit 1, fatal = Some ProcessRrule,
                                  outputs = [], summary = None\<rparr>))"
proof (intro conjI impI)
  have ptz: "parse_timezone L (get_input_str w ''timezone'' ''UTC'') = Inr tz"
    using tz by (simp add: parse_timezone_def)
  {
    assume "\<not> truthy (get_input w ''duration_minutes'' None)"
    then have "freeze_logic L w tz (astimezone tz (now w)) = Inl DurationRequired"
      using fs fe rr by (simp add: freeze_logic_def truthy_def)
    then show "main L w = \<lparr>status = SysExit 1, fatal = Some DurationRequired,
                        outputs = [], summary = None\<rparr>"
      using env ptz by (simp add: main_def abort_def)
  }
  assume h: "get_input w ''duration_minutes'' None = Some duration_mins \<and> duration_mins \<noteq> []
         \<and> py_int L duration_mins = Returns duration \<and> duration \<le> 0
         \<and> now_naive = now w + utcoffset_at tz (now w)
         \<and> rrulestr L rrule_str now_naive = Returns rule
         \<and> rule now_naive = Returns (Some last_start) \<and> last_start \<le> now_naive"
  then have dm: "get_input w ''duration_minutes'' None = Some duration_mins" "duration_mins \<noteq> []"
    and dur: "py_int L duration_mins = Returns duration" "duration \<le> 0"
    and nn: "now_naive = now w + utcoffset_at tz (now w)"
    and rule: "rrulestr L rrule_str now_naive = Returns rule"
    and occ: "rule now_naive = Returns (Some last_start)" "last_start \<le> now_naive"
    by blast+
  let ?rep = "timedelta_min \<le> duration * 60000000
                  \<and> 0 \<le> last_start + duration * 60000000
                  \<and> last_start + duration * 60000000 \<le> datetime_max"
  have rw: "recurring_window L tz (astimezone tz (now w)) rrule_str duration_mins
      = (if ?rep then Returns no_window else Raises)"
    using dur rule occ nn
    by (auto simp: recurring_window_def astimezone_def replace_tzinfo_None_def
        timedelta_minutes_def datetime_add_def timedelta_max_def Let_def)
  have fl: "freeze_logic L w tz (astimezone tz (now w))
      = (if ?rep then Inr no_window else Inl ProcessRrule)"
    using fs fe rr dm by (simp add: freeze_logic_def truthy_def rw)
  have bad: "main L w = \<lparr>status = SysExit 1, fatal = Some ProcessRrule,
                                  outputs = [], summary = None\<rparr>" if "\<not> ?rep"
  proof -
    from fl that have "freeze_logic L w tz (astimezone tz (now w)) = Inl ProcessRrule"
      by (auto split: if_splits)
    with env ptz show ?thesis by (simp add: main_def abort_def)
  qed
  have good: "fatal (main L w) = None
      \<and> (writable w ''GITHUB_OUTPUT'' \<longrightarrow>
            map_of (outputs (main L w)) ''is_frozen'' = Some ''false'')"
    and quiet: "map_of (outputs (main L w)) ''is_frozen'' \<noteq> Some ''true''" if rep: "?rep"
  proof -
    from fl rep have fl': "freeze_logic L w tz (astimezone tz (now w)) = Inr no_window"
      by (auto split: if_splits)
    show "fatal (main L w) = None
      \<and> (writable w ''GITHUB_OUTPUT'' \<longrightarrow>
            map_of (outputs (main L w)) ''is_frozen'' = Some ''false'')"
      using main_is_frozen [OF env tz _ fl'] env ptz fl'
      by (auto simp: main_def Let_def no_window_def bool_str_def)
    show "map_of (outputs (main L w)) ''is_frozen'' \<noteq> Some ''true''"
    proof (cases "writable w ''GITHUB_OUTPUT''")
      case True
      from main_is_frozen [OF env tz True fl'] show ?thesis
        by (simp add: no_window_def bool_str_def)
    next
      case False
      with env ptz fl' show ?thesis by (simp add: main_def Let_def)
    qed
  qed
  show "map_of (outputs (main L w)) ''is_frozen'' \<noteq> Some ''true''"
    using quiet bad by (cases ?rep) simp_all
  show "if ?rep
        then fatal (main L w) = None
             \<and> (writable w ''GITHUB_OUTPUT'' \<longrightarrow>
                   map_of (outputs (main L w)) ''is_frozen'' = Some ''false'')
        else main L w = \<lparr>status = SysExit 1, fatal = Some ProcessRrule,
                           outputs = [], summary = None\<rparr>"
    using good bad by (cases ?rep) simp_all
qed

theorem duration_minutes_required_witness:
  "main sample_lib (configured [(''INPUT_RRULE'', weekly_from_saturday)])
     = \<lparr>status = SysExit 1, fatal = Some DurationRequired, outputs = [], summary = None\<rparr>
   \<and> fatal (main sample_lib (weekend_run ''-30'' saturday_noon)) = None
   \<and> map_of (outputs (main sample_lib (weekend_run ''-30'' saturday_noon))) ''is_frozen''
       = Some ''false''
   \<and> main sample_lib (weekend_run ''-1100000000'' saturday_noon)
     = \<lparr>status = SysExit 1, fatal = Some ProcessRrule, outputs = [], summary = None\<rparr>"
proof -
  let ?A = "configured [(''INPUT_RRULE'', weekly_from_saturday)]"
  have rr2: "weekly_from_saturday \<noteq> []"
    by (simp add: weekly_from_saturday_def)
  have a: "truthy (get_input ?A ''environment'' None)"
    "pytz_timezone sample_lib (get_input_str ?A ''timezone'' ''UTC'') = Returns pytz_utc"
    "\<not> truthy (get_input ?A ''freeze_start'' None)"
    "\<not> truthy (get_input ?A ''freeze_end'' None)"
    "get_input ?A ''rrule'' None = Some weekly_from_saturday"
    "\<not> truthy (get_input ?A ''duration_minutes'' None)"
    by (simp_all add: run_defs input_names truthy_def get_input_str_def sample_lib_def
        weekly_from_saturday_def)
  have b: "truthy (get_input (weekend_run s saturday_noon) ''environment'' None)"
    "pytz_timezone sample_lib (get_input_str (weekend_run s saturday_noon) ''timezone'' ''UTC'')
       = Returns pytz_utc"
    "\<not> truthy (get_input (weekend_run s saturday_noon) ''freeze_start'' None)"
    "\<not> truthy (get_input (weekend_run s saturday_noon) ''freeze_end'' None)"
    "get_input (weekend_run s saturday_noon) ''rrule'' None = Some weekly_from_saturday" for s
    by (simp_all add: run_defs input_names truthy_def get_input_str_def sample_lib_def
        weekly_from_saturday_def)
  have c: "get_input (weekend_run s saturday_noon) ''duration_minutes'' None = Some s
         \<and> saturday_noon = now (weekend_run s saturday_noon)
               + utcoffset_at pytz_utc (now (weekend_run s saturday_noon))
         \<and> rrulestr sample_lib weekly_from_saturday saturday_noon
             = Returns (every (7 * day) (738827 * day))
         \<and> every (7 * day) (738827 * day) saturday_noon = Returns (Some (738827 * day))
         \<and> 738827 * day \<le> saturday_noon
         \<and> writable (weekend_run s saturday_noon) ''GITHUB_OUTPUT''" for s
    by (simp add: run_defs input_names sample_defs writable_def)
  have d: "py_int sample_lib ''-30'' = Returns (- 30)"
    "py_int sample_lib ''-1100000000'' = Returns (- 1100000000)"
    by (simp_all add: sample_lib_def sample_int_def)
  from duration_minutes_required [OF a(1-5) rr2, where duration_mins = "[]"] a(6)
  have 1: "main sample_lib ?A
     = \<lparr>status = SysExit 1, fatal = Some DurationRequired, outputs = [], summary = None\<rparr>"
    by blast
  from duration_minutes_required [OF b [of "''-30''"] rr2, where duration_mins = "''-30''"
      and duration = "- 30" and now_naive = saturday_noon
      and rule = "every (7 * day) (738827 * day)" and last_start = "738827 * day"]
    c [of "''-30''"] d(1)
  have 2: "fatal (main sample_lib (weekend_run ''-30'' saturday_noon)) = None
   \<and> map_of (outputs (main sample_lib (weekend_run ''-30'' saturday_noon))) ''is_frozen''
       = Some ''false''"
    by (simp add: timedelta_min_def datetime_max_def day_def)
  from duration_minutes_required [OF b [of "''-1100000000''"] rr2, where duration_mins = "''-1100000000''"
      and duration = "- 1100000000" and now_naive = saturday_noon
      and rule = "every (7 * day) (738827 * day)" and last_start = "738827 * day"]
    c [of "''-1100000000''"] d(2)
  have 3: "main sample_lib (weekend_run ''-1100000000'' saturday_noon)
     = \<lparr>status = SysExit 1, fatal = Some ProcessRrule, outputs = [], summary = None\<rparr>"
    by (simp add: timedelta_min_def datetime_max_def day_def)
  from 1 2 3 show ?thesis by blast
qed

end
